theory Spec2Isabelle
  imports Main
begin

section \<open>Values exchanged with the client\<close>

text \<open>
  JSON values, as they arrive in \<open>req.body\<close> and leave through \<open>res.json\<close>. An object
  keeps its members in order; a member missing from an object reads as \<open>undefined\<close>
  (\<open>None\<close>), and of two members with one name the later one counts, as in \<open>JSON.parse\<close>.
\<close>

datatype json =
    JNull
  | JBool bool
  | JNum int
  | JStr string
  | JArr "json list"
  | JObj "(string \<times> json) list"

definition member :: "(string \<times> json) list \<Rightarrow> string \<Rightarrow> json option" where
  "member kvs k = map_of (rev kvs) k"

fun json_type :: "json \<Rightarrow> string" where
  "json_type JNull = ''null''"
| "json_type (JBool _) = ''boolean''"
| "json_type (JNum _) = ''number''"
| "json_type (JStr _) = ''string''"
| "json_type (JArr _) = ''array''"
| "json_type (JObj _) = ''object''"

section \<open>Data model (shared/schema.ts)\<close>

text \<open>
  A row of the \<open>users\<close> table, \<open>typeof users.$inferSelect\<close>. The column \<open>id\<close> is
  \<open>user_id\<close> here and the column \<open>isAdmin\<close> is \<open>is_admin\<close> (its name in the database),
  since \<open>id\<close> is a constant of HOL and \<open>isAdmin\<close> is also the name of the middleware.
  Timestamps are seconds; the two timestamp columns are nullable.
\<close>

record user =
  user_id :: nat
  fullName :: string
  email :: string
  phone :: string
  password :: string
  is_admin :: bool
  createdAt :: "nat option"
  updatedAt :: "nat option"

text \<open>\<open>InsertUser\<close>: what \<open>storage.createUser\<close> receives from \<open>register\<close>.\<close>

record InsertUser =
  new_fullName :: string
  new_email :: string
  new_phone :: string
  new_password :: string
  new_isAdmin :: bool

text \<open>\<open>RegisterUser\<close> and \<open>LoginCredentials\<close>: the outputs of the two auth schemas.\<close>

record RegisterUser =
  reg_fullName :: string
  reg_email :: string
  reg_phone :: string
  reg_password :: string
  reg_confirmPassword :: string

record LoginCredentials =
  cred_email :: string
  cred_password :: string

section \<open>Thrown values\<close>

text \<open>
  One issue of a \<open>ZodError\<close>. Of the members zod puts into an issue, the code, the path
  and the message are kept.
\<close>

record zod_issue =
  issue_code :: string
  issue_path :: "string list"
  issue_message :: string

text \<open>
  What a \<open>catch\<close> clause can receive: a \<open>ZodError\<close> with its issues (it is an \<open>Error\<close>
  too, and the handlers test for it first), any other \<open>Error\<close> with its message, or a
  value that is no \<open>Error\<close> at all.
\<close>

datatype thrown =
    ZodError "zod_issue list"
  | Error string
  | NonError string

section \<open>Tokens (jsonwebtoken)\<close>

text \<open>
  Modelled from the spec: the tokens of the \<open>jsonwebtoken\<close> package, which auth.ts
  imports and which is not among the sources. The spec (3, 4.2) has a token encode
  \<open>{user id, expiry}\<close>, signed with a secret.

  The compact serialisation is not modelled: a cookie value is represented by what the
  decoder reads from it, either a payload with a signature (\<open>Jws\<close>) or a string that is
  no token (\<open>NotJws\<close>; \<open>NotJws []\<close> is the empty string). The signature is symbolic:
  \<open>HS256 k p\<close> is the MAC of payload \<open>p\<close> under key \<open>k\<close>, distinct inputs giving
  distinct MACs, and \<open>Bytes\<close> is any other signature. Times are in seconds.
\<close>

record jwt_payload =
  claim_id :: nat
  iat :: nat
  exp :: nat

datatype signature =
    HS256 string jwt_payload
  | Bytes string

datatype token =
    Jws jwt_payload signature
  | NotJws string

text \<open>
  Modelled from the spec: \<open>jwt.sign(payload, secret, {expiresIn})\<close>, a signed token that
  asserts the id, issued now and expiring \<open>expiresIn\<close> seconds from now (spec 4.2).
\<close>

definition jwt_sign :: "nat \<Rightarrow> string \<Rightarrow> nat \<Rightarrow> nat \<Rightarrow> token" where
  "jwt_sign userId secret expiresIn clock =
     (let payload = \<lparr>claim_id = userId, iat = clock, exp = clock + expiresIn\<rparr>
      in Jws payload (HS256 secret payload))"

text \<open>
  Modelled from the spec: \<open>jwt.verify(token, secret)\<close> checks signature integrity and
  expiry; it throws for a malformed token, a bad signature, a tampered payload (the
  signature is then not the MAC of the payload) and an expired token, and returns the
  payload otherwise (spec 4.2).
\<close>

definition jwt_verify :: "token \<Rightarrow> string \<Rightarrow> nat \<Rightarrow> thrown + jwt_payload" where
  "jwt_verify tok secret clock =
     (case tok of
        NotJws s \<Rightarrow>
          if s = [] then Inl (Error ''jwt must be provided'') else Inl (Error ''jwt malformed'')
      | Jws payload sg \<Rightarrow>
          if sg \<noteq> HS256 secret payload then Inl (Error ''invalid signature'')
          else if exp payload \<le> clock then Inl (Error ''jwt expired'')
          else Inr payload)"

section \<open>The platform and the world\<close>

text \<open>
  What the process is started with and the library functions that are parameters of
  the model, their code not being part of the repository: the two environment
  variables the auth code reads, \<open>bcrypt.hash\<close> (plaintext, salt rounds and the salt
  bcrypt draws by itself), \<open>bcrypt.compare\<close>, and the regular expression behind zod's
  \<open>.email()\<close>.
\<close>

record platform =
  env_JWT_SECRET :: "string option"
  env_NODE_ENV :: "string option"
  bcrypt_hash :: "string \<Rightarrow> nat \<Rightarrow> nat \<Rightarrow> string"
  bcrypt_compare :: "string \<Rightarrow> string \<Rightarrow> bool"
  emailRegex :: "string \<Rightarrow> bool"

text \<open>What the code does to the outside, in the order it does it.\<close>

datatype event =
    DbSelectUserById nat
  | DbSelectUserByEmail string
  | DbInsertUser InsertUser
  | BcryptHash
  | BcryptCompare
  | ConsoleError string thrown

text \<open>
  Modelled from the spec: the database handle \<open>db\<close> (\<open>./db\<close> is not among the sources),
  as far as the \<open>users\<close> table goes: its rows, the sequence behind the serial column
  \<open>id\<close>, and whether the connection is broken (then every statement rejects with an
  \<open>Error\<close> carrying the driver's message). The world also holds the clock in seconds,
  the source of bcrypt's salts, and the trace of events so far.
\<close>

record world =
  users_rows :: "user list"
  users_id_seq :: nat
  db_error :: "string option"
  now :: nat
  entropy :: nat
  trace :: "event list"

definition emit :: "event \<Rightarrow> world \<Rightarrow> world" where
  "emit e w = w\<lparr>trace := trace w @ [e]\<rparr>"

text \<open>
  Modelled from the spec: \<open>db.select().from(users).where(...)\<close>, the rows that satisfy
  the condition (spec 2: lookup by id and by email).
\<close>

definition db_select_users :: "world \<Rightarrow> (user \<Rightarrow> bool) \<Rightarrow> thrown + user list" where
  "db_select_users w cond =
     (case db_error w of
        Some m \<Rightarrow> Inl (Error m)
      | None \<Rightarrow> Inr (filter cond (users_rows w)))"

text \<open>
  Modelled from the spec: \<open>db.insert(users).values(v).returning()\<close>. The row gets the
  next value of the sequence as its \<open>id\<close> and now as its two timestamps. The sequence is
  consumed even if the insert then fails; the unique constraints on \<open>email\<close> and \<open>phone\<close>
  reject a second row with the same value (spec 3: email and phone are globally unique).
\<close>

definition new_row :: "world \<Rightarrow> InsertUser \<Rightarrow> user" where
  "new_row w v =
     \<lparr>user_id = Suc (users_id_seq w), fullName = new_fullName v, email = new_email v,
      phone = new_phone v, password = new_password v, is_admin = new_isAdmin v,
      createdAt = Some (now w), updatedAt = Some (now w)\<rparr>"

text \<open>Modelled from the spec: the insert itself, on the model of \<open>db\<close> above.\<close>

definition db_insert_user :: "world \<Rightarrow> InsertUser \<Rightarrow> (thrown + user list) \<times> world" where
  "db_insert_user w v =
     (case db_error w of
        Some m \<Rightarrow> (Inl (Error m), w)
      | None \<Rightarrow>
          let w' = w\<lparr>users_id_seq := Suc (users_id_seq w)\<rparr>
          in if \<exists>u \<in> set (users_rows w). email u = new_email v then
               (Inl (Error ''duplicate key value violates unique constraint users_email_unique''), w')
             else if \<exists>u \<in> set (users_rows w). phone u = new_phone v then
               (Inl (Error ''duplicate key value violates unique constraint users_phone_unique''), w')
             else (Inr [new_row w v], w'\<lparr>users_rows := users_rows w @ [new_row w v]\<rparr>))"

section \<open>Credential store (storage.ts, class DatabaseStorage)\<close>

text \<open>\<open>const [user] = await ...; return user\<close>: the first row, or \<open>undefined\<close>.\<close>

fun first_row :: "user list \<Rightarrow> user option" where
  "first_row [] = None"
| "first_row (u # _) = Some u"

definition getUserById :: "world \<Rightarrow> nat \<Rightarrow> (thrown + user option) \<times> world" where
  "getUserById w i =
     (case db_select_users w (\<lambda>u. user_id u = i) of
        Inl e \<Rightarrow> (Inl e, emit (DbSelectUserById i) w)
      | Inr rows \<Rightarrow> (Inr (first_row rows), emit (DbSelectUserById i) w))"

definition getUserByEmail :: "world \<Rightarrow> string \<Rightarrow> (thrown + user option) \<times> world" where
  "getUserByEmail w e =
     (case db_select_users w (\<lambda>u. email u = e) of
        Inl err \<Rightarrow> (Inl err, emit (DbSelectUserByEmail e) w)
      | Inr rows \<Rightarrow> (Inr (first_row rows), emit (DbSelectUserByEmail e) w))"

definition createUser :: "world \<Rightarrow> InsertUser \<Rightarrow> (thrown + user option) \<times> world" where
  "createUser w userData =
     (case db_insert_user (emit (DbInsertUser userData) w) userData of
        (Inl e, w') \<Rightarrow> (Inl e, w')
      | (Inr rows, w') \<Rightarrow> (Inr (first_row rows), w'))"

section \<open>Requests and responses (express)\<close>

text \<open>
  A cookie the response sets (name, value, \<open>httpOnly\<close>, \<open>secure\<close>, \<open>maxAge\<close> in
  milliseconds) or clears.
\<close>

datatype cookie_directive =
    SetCookie string token bool bool nat
  | ClearCookie string

record response =
  res_status :: nat
  res_json :: json
  res_cookies :: "cookie_directive list"

text \<open>
  The request as the auth code reads it: the parsed cookies, the parsed body, and the
  \<open>user\<close> property that the declaration at the end of auth.ts adds to \<open>Request\<close>.
\<close>

record request =
  cookies :: "string \<rightharpoonup> token"
  body :: json
  user :: "user option"

text \<open>A middleware either ends the request with a response or calls \<open>next()\<close>.\<close>

datatype outcome =
    Responded response
  | Next request

definition send :: "nat \<Rightarrow> json \<Rightarrow> response" where
  "send st j = \<lparr>res_status = st, res_json = j, res_cookies = []\<rparr>"

definition message_json :: "string \<Rightarrow> json" where
  "message_json m = JObj [(''message'', JStr m)]"

fun timestamp_json :: "nat option \<Rightarrow> json" where
  "timestamp_json None = JNull"
| "timestamp_json (Some t) = JNum (int t)"

definition user_json :: "user \<Rightarrow> json" where
  "user_json u =
     JObj [(''id'', JNum (int (user_id u))), (''fullName'', JStr (fullName u)),
           (''email'', JStr (email u)), (''phone'', JStr (phone u)),
           (''password'', JStr (password u)), (''isAdmin'', JBool (is_admin u)),
           (''createdAt'', timestamp_json (createdAt u)),
           (''updatedAt'', timestamp_json (updatedAt u))]"

definition issue_json :: "zod_issue \<Rightarrow> json" where
  "issue_json i =
     JObj [(''code'', JStr (issue_code i)), (''path'', JArr (map JStr (issue_path i))),
           (''message'', JStr (issue_message i))]"

section \<open>auth.ts\<close>

definition JWT_SECRET :: "platform \<Rightarrow> string" where
  "JWT_SECRET P =
     (case env_JWT_SECRET P of
        None \<Rightarrow> ''your-secret-key-change-in-production''
      | Some s \<Rightarrow> if s = [] then ''your-secret-key-change-in-production'' else s)"

definition hashPassword :: "platform \<Rightarrow> world \<Rightarrow> string \<Rightarrow> string \<times> world" where
  "hashPassword P w pw =
     (let saltRounds = 10
      in (bcrypt_hash P pw saltRounds (entropy w),
          emit BcryptHash (w\<lparr>entropy := Suc (entropy w)\<rparr>)))"

definition comparePasswords :: "platform \<Rightarrow> world \<Rightarrow> string \<Rightarrow> string \<Rightarrow> bool \<times> world" where
  "comparePasswords P w pw hashedPassword =
     (bcrypt_compare P pw hashedPassword, emit BcryptCompare w)"

text \<open>\<open>expiresIn: "7d"\<close> is seven days, in the seconds \<open>iat\<close> and \<open>exp\<close> count.\<close>

definition generateToken :: "platform \<Rightarrow> world \<Rightarrow> nat \<Rightarrow> token" where
  "generateToken P w userId = jwt_sign userId (JWT_SECRET P) (7 * 24 * 60 * 60) (now w)"

text \<open>The \<open>try\<close>/\<open>catch\<close> turns everything \<open>jwt.verify\<close> throws into \<open>null\<close>.\<close>

definition verifyToken :: "platform \<Rightarrow> world \<Rightarrow> token \<Rightarrow> jwt_payload option" where
  "verifyToken P w tok =
     (case jwt_verify tok (JWT_SECRET P) (now w) of
        Inl error \<Rightarrow> None
      | Inr decoded \<Rightarrow> Some decoded)"

text \<open>\<open>!token\<close> holds for a cookie that is absent and for one that is the empty string.\<close>

definition isAuthenticated :: "platform \<Rightarrow> world \<Rightarrow> request \<Rightarrow> outcome \<times> world" where
  "isAuthenticated P w req =
     (case cookies req ''token'' of
        None \<Rightarrow> (Responded (send 401 (message_json ''Unauthorized'')), w)
      | Some tok \<Rightarrow>
          if tok = NotJws [] then (Responded (send 401 (message_json ''Unauthorized'')), w)
          else
            (case verifyToken P w tok of
               None \<Rightarrow> (Responded (send 401 (message_json ''Unauthorized'')), w)
             | Some decoded \<Rightarrow>
                 (case getUserById w (claim_id decoded) of
                    (Inl error, w') \<Rightarrow>
                      (Responded (send 401 (message_json ''Unauthorized'')),
                       emit (ConsoleError ''Authentication error:'' error) w')
                  | (Inr None, w') \<Rightarrow>
                      (Responded (send 401 (message_json ''Unauthorized'')), w')
                  | (Inr (Some u), w') \<Rightarrow> (Next (req\<lparr>user := Some u\<rparr>), w'))))"

definition isAdmin :: "request \<Rightarrow> outcome" where
  "isAdmin req =
     (case user req of
        None \<Rightarrow> Responded (send 403 (message_json ''Forbidden: Admin access required''))
      | Some u \<Rightarrow>
          if \<not> is_admin u
          then Responded (send 403 (message_json ''Forbidden: Admin access required''))
          else Next req)"

text \<open>
  \<open>register\<close>. Whatever is thrown inside the \<open>try\<close> is logged and replaced by a new
  \<open>Error\<close>; that includes the \<open>TypeError\<close> of reading \<open>user.id\<close> should \<open>createUser\<close>
  return \<open>undefined\<close>.
\<close>

definition register :: "platform \<Rightarrow> world \<Rightarrow> RegisterUser \<Rightarrow> (thrown + user \<times> token) \<times> world" where
  "register P w userData =
     (case hashPassword P w (reg_password userData) of
        (hashedPassword, w1) \<Rightarrow>
          (case createUser w1 \<lparr>new_fullName = reg_fullName userData,
                               new_email = reg_email userData,
                               new_phone = reg_phone userData,
                               new_password = hashedPassword,
                               new_isAdmin = False\<rparr> of
             (Inl error, w2) \<Rightarrow>
               (Inl (Error ''Failed to register user''),
                emit (ConsoleError ''Registration error:'' error) w2)
           | (Inr None, w2) \<Rightarrow>
               (Inl (Error ''Failed to register user''),
                emit (ConsoleError ''Registration error:''
                        (Error ''Cannot read properties of undefined'')) w2)
           | (Inr (Some u), w2) \<Rightarrow> (Inr (u, generateToken P w2 (user_id u)), w2)))"

text \<open>\<open>login\<close>. The \<open>catch\<close> logs what was thrown, its own two errors too, and rethrows it.\<close>

definition login :: "platform \<Rightarrow> world \<Rightarrow> LoginCredentials \<Rightarrow> (thrown + user \<times> token) \<times> world" where
  "login P w credentials =
     (case getUserByEmail w (cred_email credentials) of
        (Inl error, w1) \<Rightarrow> (Inl error, emit (ConsoleError ''Login error:'' error) w1)
      | (Inr None, w1) \<Rightarrow>
          (Inl (Error ''Invalid email or password''),
           emit (ConsoleError ''Login error:'' (Error ''Invalid email or password'')) w1)
      | (Inr (Some u), w1) \<Rightarrow>
          (case comparePasswords P w1 (cred_password credentials) (password u) of
             (passwordMatch, w2) \<Rightarrow>
               if \<not> passwordMatch then
                 (Inl (Error ''Invalid email or password''),
                  emit (ConsoleError ''Login error:'' (Error ''Invalid email or password'')) w2)
               else (Inr (u, generateToken P w2 (user_id u)), w2)))"

section \<open>Schemas (zod)\<close>

text \<open>
  Modelled from the spec: the \<open>zod\<close> package (package.json: \<open>zod ^3.24.2\<close>), whose
  combinators schema.ts builds the auth schemas from and which is not among the
  sources. The spec (4.4, 7) has validation check required fields, email format, a
  phone of exactly 10 digits, the minimum length of the password and the equality of
  password and confirmation, and reject with a structured error that lists the
  violations. The combinators below are the ones the two schemas use; where the spec
  does not say how they combine, they combine as in zod 3.

  The result of running a schema: it aborted (the input has the wrong type; no value),
  or it went through with a value and the issues of the checks that failed.
\<close>

datatype 'a parsed =
    Aborted "zod_issue list"
  | Checked "zod_issue list" 'a

fun issues :: "'a parsed \<Rightarrow> zod_issue list" where
  "issues (Aborted is) = is"
| "issues (Checked is _) = is"

text \<open>
  Modelled from the spec: \<open>z.string()\<close> with its checks, run on the member \<open>key\<close> of an
  object. A member that is missing or is no string aborts with one \<open>invalid_type\<close>
  issue; on a string every check runs, each failed check adding its issue.
\<close>

definition zod_string :: "(string list \<Rightarrow> string \<Rightarrow> zod_issue list) \<Rightarrow> string \<Rightarrow> (string \<times> json) list \<Rightarrow> string parsed" where
  "zod_string checks key kvs =
     (case member kvs key of
        None \<Rightarrow>
          Aborted [\<lparr>issue_code = ''invalid_type'', issue_path = [key],
                    issue_message = ''Required''\<rparr>]
      | Some (JStr s) \<Rightarrow> Checked (checks [key] s) s
      | Some j \<Rightarrow>
          Aborted [\<lparr>issue_code = ''invalid_type'', issue_path = [key],
                    issue_message = ''Expected string, received '' @ json_type j\<rparr>])"

text \<open>
  Modelled from the spec: \<open>z.object({...})\<close>. An input that is no object aborts. Every
  member of the shape is parsed, in the order of the shape, and its issues are kept;
  members that are not in the shape are dropped; the object aborts when one of its
  members aborted. \<open>zod_member\<close> adds one member to the members parsed so far.
\<close>

definition zod_object :: "json \<Rightarrow> ((string \<times> json) list \<Rightarrow> 'a parsed) \<Rightarrow> 'a parsed" where
  "zod_object j shape =
     (case j of
        JObj kvs \<Rightarrow> shape kvs
      | _ \<Rightarrow>
          Aborted [\<lparr>issue_code = ''invalid_type'', issue_path = [],
                    issue_message = ''Expected object, received '' @ json_type j\<rparr>])"

fun zod_member :: "('a \<Rightarrow> 'b) parsed \<Rightarrow> 'a parsed \<Rightarrow> 'b parsed" where
  "zod_member (Checked is f) (Checked is' x) = Checked (is @ is') (f x)"
| "zod_member p q = Aborted (issues p @ issues q)"

text \<open>
  Modelled from the spec: \<open>.refine(...)\<close>, by which schema.ts checks the confirmation of
  the password (spec 4.4). As in zod 3, the refinement runs on the value of a schema
  that did not abort, also when checks of it failed, and adds its issue; it does not
  run when the schema aborted, since there is no value to run it on.
\<close>

fun zod_refine :: "('a \<Rightarrow> zod_issue list) \<Rightarrow> 'a parsed \<Rightarrow> 'a parsed" where
  "zod_refine r (Aborted is) = Aborted is"
| "zod_refine r (Checked is v) = Checked (is @ r v) v"

text \<open>
  Modelled from the spec: \<open>.parse(...)\<close> returns the value when there is no issue and
  throws a \<open>ZodError\<close> with all the issues otherwise.
\<close>

fun zod_parse :: "'a parsed \<Rightarrow> thrown + 'a" where
  "zod_parse (Aborted is) = Inl (ZodError is)"
| "zod_parse (Checked is v) = (if is = [] then Inr v else Inl (ZodError is))"

text \<open>Modelled from the spec: \<open>.min(n, message)\<close>, a check on the length of a string.\<close>

definition min_check :: "nat \<Rightarrow> string \<Rightarrow> string list \<Rightarrow> string \<Rightarrow> zod_issue list" where
  "min_check n msg path s =
     (if length s < n
      then [\<lparr>issue_code = ''too_small'', issue_path = path, issue_message = msg\<rparr>]
      else [])"

text \<open>
  Modelled from the spec: \<open>.email(message)\<close>, a check of the string against zod's regular
  expression for email addresses, which is a parameter of the platform.
\<close>

definition email_check :: "platform \<Rightarrow> string \<Rightarrow> string list \<Rightarrow> string \<Rightarrow> zod_issue list" where
  "email_check P msg path s =
     (if emailRegex P s then []
      else [\<lparr>issue_code = ''invalid_string'', issue_path = path, issue_message = msg\<rparr>])"

text \<open>Modelled from the spec: \<open>.regex(re, message)\<close>, a check of the string against \<open>re\<close>.\<close>

definition regex_check :: "(string \<Rightarrow> bool) \<Rightarrow> string \<Rightarrow> string list \<Rightarrow> string \<Rightarrow> zod_issue list" where
  "regex_check re msg path s =
     (if re s then []
      else [\<lparr>issue_code = ''invalid_string'', issue_path = path, issue_message = msg\<rparr>])"

text \<open>\<open>z.string()\<close> without checks: the column \<open>full_name\<close> and \<open>confirmPassword\<close>.\<close>

definition no_checks :: "string list \<Rightarrow> string \<Rightarrow> zod_issue list" where
  "no_checks path s = []"

section \<open>The auth schemas (shared/schema.ts)\<close>

text \<open>\<open>/^\d{10}$/\<close>: ten characters, each a digit.\<close>

definition phone_regex :: "string \<Rightarrow> bool" where
  "phone_regex s \<longleftrightarrow> length s = 10 \<and> (\<forall>c \<in> set s. c \<in> set ''0123456789'')"

text \<open>
  The refinement of \<open>registerUserSchema\<close>: \<open>data.password === data.confirmPassword\<close>,
  with the message \<open>Passwords don't match\<close> and the path \<open>["confirmPassword"]\<close>.
\<close>

definition passwords_match :: "RegisterUser \<Rightarrow> zod_issue list" where
  "passwords_match data =
     (if reg_password data = reg_confirmPassword data then []
      else [\<lparr>issue_code = ''custom'', issue_path = [''confirmPassword''],
              issue_message = ''Passwords don't match''\<rparr>])"

text \<open>
  \<open>registerUserSchema.parse\<close>. The shape is that of the insert schema of \<open>users\<close> without
  \<open>id\<close>, \<open>isAdmin\<close>, \<open>createdAt\<close> and \<open>updatedAt\<close>, with \<open>email\<close>, \<open>phone\<close> and \<open>password\<close>
  replaced and \<open>confirmPassword\<close> added: \<open>fullName\<close>, \<open>email\<close>, \<open>phone\<close>, \<open>password\<close>,
  \<open>confirmPassword\<close>, each a string.
\<close>

definition registerUserSchema :: "platform \<Rightarrow> json \<Rightarrow> thrown + RegisterUser" where
  "registerUserSchema P j =
     zod_parse
       (zod_refine passwords_match
          (zod_object j
             (\<lambda>kvs.
                zod_member (zod_member (zod_member (zod_member (zod_member
                  (Checked []
                     (\<lambda>fn em ph pw cp.
                        \<lparr>reg_fullName = fn, reg_email = em, reg_phone = ph,
                         reg_password = pw, reg_confirmPassword = cp\<rparr>))
                  (zod_string no_checks ''fullName'' kvs))
                  (zod_string (email_check P ''Please enter a valid email address'')
                     ''email'' kvs))
                  (zod_string (regex_check phone_regex ''Phone number must be 10 digits'')
                     ''phone'' kvs))
                  (zod_string (min_check 8 ''Password must be at least 8 characters'')
                     ''password'' kvs))
                  (zod_string no_checks ''confirmPassword'' kvs))))"

text \<open>\<open>loginSchema.parse\<close>\<close>

definition loginSchema :: "platform \<Rightarrow> json \<Rightarrow> thrown + LoginCredentials" where
  "loginSchema P j =
     zod_parse
       (zod_object j
          (\<lambda>kvs.
             zod_member (zod_member
               (Checked [] (\<lambda>em pw. \<lparr>cred_email = em, cred_password = pw\<rparr>))
               (zod_string (email_check P ''Please enter a valid email address'')
                  ''email'' kvs))
               (zod_string (min_check 1 ''Password is required'') ''password'' kvs)))"

section \<open>The auth router (auth-routes.ts)\<close>

text \<open>The body both routes send for a \<open>ZodError\<close>; \<open>errors\<close> is \<open>error.errors\<close>, its issues.\<close>

definition validation_error :: "zod_issue list \<Rightarrow> json" where
  "validation_error is =
     JObj [(''message'', JStr ''Validation error''), (''errors'', JArr (map issue_json is))]"

text \<open>The options of the token cookie; seven days in milliseconds.\<close>

definition token_cookie :: "platform \<Rightarrow> token \<Rightarrow> cookie_directive" where
  "token_cookie P tok =
     SetCookie ''token'' tok True (env_NODE_ENV P = Some ''production'')
       (7 * 24 * 60 * 60 * 1000)"

text \<open>The \<open>catch\<close> clause of \<open>POST /register\<close>.\<close>

fun register_catch :: "thrown \<Rightarrow> world \<Rightarrow> response \<times> world" where
  "register_catch (ZodError is) w = (send 400 (validation_error is), w)"
| "register_catch error w =
     (send 500 (message_json ''Failed to register user''),
      emit (ConsoleError ''Registration error:'' error) w)"

definition post_register :: "platform \<Rightarrow> world \<Rightarrow> request \<Rightarrow> response \<times> world" where
  "post_register P w req =
     (case registerUserSchema P (body req) of
        Inl error \<Rightarrow> register_catch error w
      | Inr validatedData \<Rightarrow>
          (case getUserByEmail w (reg_email validatedData) of
             (Inl error, w1) \<Rightarrow> register_catch error w1
           | (Inr (Some existingUser), w1) \<Rightarrow>
               (send 400 (message_json ''Email already in use''), w1)
           | (Inr None, w1) \<Rightarrow>
               (case register P w1 validatedData of
                  (Inl error, w2) \<Rightarrow> register_catch error w2
                | (Inr (u, tok), w2) \<Rightarrow>
                    (\<lparr>res_status = 201, res_json = JObj [(''user'', user_json u)],
                      res_cookies = [token_cookie P tok]\<rparr>, w2))))"

text \<open>
  The \<open>catch\<close> clause of \<open>POST /login\<close>: a \<open>ZodError\<close> first, then any \<open>Error\<close>, which
  is answered with its own message, then the rest.
\<close>

fun login_catch :: "thrown \<Rightarrow> world \<Rightarrow> response \<times> world" where
  "login_catch (ZodError is) w = (send 400 (validation_error is), w)"
| "login_catch (Error m) w = (send 401 (message_json m), w)"
| "login_catch error w =
     (send 500 (message_json ''Failed to login''), emit (ConsoleError ''Login error:'' error) w)"

definition post_login :: "platform \<Rightarrow> world \<Rightarrow> request \<Rightarrow> response \<times> world" where
  "post_login P w req =
     (case loginSchema P (body req) of
        Inl error \<Rightarrow> login_catch error w
      | Inr validatedData \<Rightarrow>
          (case login P w validatedData of
             (Inl error, w1) \<Rightarrow> login_catch error w1
           | (Inr (u, tok), w1) \<Rightarrow>
               (\<lparr>res_status = 200, res_json = JObj [(''user'', user_json u)],
                 res_cookies = [token_cookie P tok]\<rparr>, w1)))"

definition post_logout :: "world \<Rightarrow> request \<Rightarrow> response \<times> world" where
  "post_logout w req =
     (\<lparr>res_status = 200, res_json = message_json ''Logged out successfully'',
       res_cookies = [ClearCookie ''token'']\<rparr>, w)"

text \<open>
  The handlers behind the middleware of \<open>GET /user\<close> and \<open>GET /admin\<close>.
  \<open>res.json(undefined)\<close> sends an empty body, \<open>JNull\<close> here.
\<close>

definition get_user_handler :: "world \<Rightarrow> request \<Rightarrow> response \<times> world" where
  "get_user_handler w req =
     (send 200 (case user req of None \<Rightarrow> JNull | Some u \<Rightarrow> user_json u), w)"

definition get_admin_handler :: "world \<Rightarrow> request \<Rightarrow> response \<times> world" where
  "get_admin_handler w req = (send 200 (JObj [(''isAdmin'', JBool True)]), w)"

section \<open>Routes and their middleware\<close>

datatype http_method = GET | POST | PUT | PATCH | DELETE

text \<open>
  The middleware the routes name: the two checks of auth.ts and the two multer uploads
  of routes.ts.
\<close>

datatype middleware =
    IsAuthenticated
  | IsAdmin
  | UploadSingle string
  | UploadArray string nat

record route =
  route_method :: http_method
  route_path :: string
  route_middleware :: "middleware list"

definition authRoutes :: "route list" where
  "authRoutes =
     [\<lparr>route_method = POST, route_path = ''/register'', route_middleware = []\<rparr>,
      \<lparr>route_method = POST, route_path = ''/login'', route_middleware = []\<rparr>,
      \<lparr>route_method = POST, route_path = ''/logout'', route_middleware = []\<rparr>,
      \<lparr>route_method = GET, route_path = ''/user'', route_middleware = [IsAuthenticated]\<rparr>,
      \<lparr>route_method = GET, route_path = ''/admin'',
        route_middleware = [IsAuthenticated, IsAdmin]\<rparr>]"

text \<open>\<open>app.use('/api/auth', authRoutes)\<close> and the routes \<open>registerRoutes\<close> adds after it.\<close>

definition registerRoutes :: "route list" where
  "registerRoutes =
     map (\<lambda>r. r\<lparr>route_path := ''/api/auth'' @ route_path r\<rparr>) authRoutes @
     [\<lparr>route_method = GET, route_path = ''/api/projects'', route_middleware = []\<rparr>,
      \<lparr>route_method = GET, route_path = ''/api/projects/:id'', route_middleware = []\<rparr>,
      \<lparr>route_method = POST, route_path = ''/api/projects'',
        route_middleware = [IsAuthenticated, IsAdmin]\<rparr>,
      \<lparr>route_method = PUT, route_path = ''/api/projects/:id'',
        route_middleware = [IsAuthenticated, IsAdmin]\<rparr>,
      \<lparr>route_method = DELETE, route_path = ''/api/projects/:id'',
        route_middleware = [IsAuthenticated, IsAdmin]\<rparr>,
      \<lparr>route_method = GET, route_path = ''/api/media'', route_middleware = []\<rparr>,
      \<lparr>route_method = POST, route_path = ''/api/media'',
        route_middleware = [IsAuthenticated, IsAdmin, UploadSingle ''file'']\<rparr>,
      \<lparr>route_method = DELETE, route_path = ''/api/media/:id'',
        route_middleware = [IsAuthenticated, IsAdmin]\<rparr>,
      \<lparr>route_method = GET, route_path = ''/api/complaints'',
        route_middleware = [IsAuthenticated]\<rparr>,
      \<lparr>route_method = GET, route_path = ''/api/complaints/stats'',
        route_middleware = [IsAuthenticated, IsAdmin]\<rparr>,
      \<lparr>route_method = GET, route_path = ''/api/complaints/:id'',
        route_middleware = [IsAuthenticated]\<rparr>,
      \<lparr>route_method = POST, route_path = ''/api/complaints'',
        route_middleware = [IsAuthenticated, UploadArray ''attachments'' 3]\<rparr>,
      \<lparr>route_method = PATCH, route_path = ''/api/complaints/:id'',
        route_middleware = [IsAuthenticated, IsAdmin]\<rparr>,
      \<lparr>route_method = GET, route_path = ''/api/events'', route_middleware = []\<rparr>,
      \<lparr>route_method = POST, route_path = ''/api/events'',
        route_middleware = [IsAuthenticated, IsAdmin]\<rparr>,
      \<lparr>route_method = DELETE, route_path = ''/api/events/:id'',
        route_middleware = [IsAuthenticated, IsAdmin]\<rparr>,
      \<lparr>route_method = POST, route_path = ''/api/admin/promote/:userId'',
        route_middleware = [IsAuthenticated, IsAdmin]\<rparr>]"

text \<open>
  Modelled from the spec: the dispatch of express, which is not among the sources. The
  spec (4.3) has the checks of a route run as a chain, the second after the first: the
  functions given to a route run from left to right, each on the request the one before
  passed on, and the first response ends the request. The uploads of multer, which the
  auth routes do not use, are a parameter.
\<close>

type_synonym step = "world \<Rightarrow> request \<Rightarrow> outcome \<times> world"

fun middleware_fn :: "platform \<Rightarrow> (middleware \<Rightarrow> step) \<Rightarrow> middleware \<Rightarrow> step" where
  "middleware_fn P upload IsAuthenticated = isAuthenticated P"
| "middleware_fn P upload IsAdmin = (\<lambda>w req. (isAdmin req, w))"
| "middleware_fn P upload m = upload m"

text \<open>
  Modelled from the spec: a chain of middleware in front of a handler, run from left to
  right; the first response ends the request (spec 4.3).
\<close>

fun run_chain :: "step list \<Rightarrow> (world \<Rightarrow> request \<Rightarrow> response \<times> world) \<Rightarrow> world \<Rightarrow> request \<Rightarrow> response \<times> world" where
  "run_chain [] handler w req = handler w req"
| "run_chain (m # ms) handler w req =
     (case m w req of
        (Responded res, w') \<Rightarrow> (res, w')
      | (Next req', w') \<Rightarrow> run_chain ms handler w' req')"

definition dispatch :: "platform \<Rightarrow> (middleware \<Rightarrow> step) \<Rightarrow> middleware list \<Rightarrow> (world \<Rightarrow> request \<Rightarrow> response \<times> world) \<Rightarrow> world \<Rightarrow> request \<Rightarrow> response \<times> world" where
  "dispatch P upload ms handler = run_chain (map (middleware_fn P upload) ms) handler"

text \<open>\<open>router.get("/user", isAuthenticated, ...)\<close> and \<open>router.get("/admin", isAuthenticated, isAdmin, ...)\<close>\<close>

definition get_user :: "platform \<Rightarrow> world \<Rightarrow> request \<Rightarrow> response \<times> world" where
  "get_user P = run_chain [isAuthenticated P] get_user_handler"

definition get_admin :: "platform \<Rightarrow> world \<Rightarrow> request \<Rightarrow> response \<times> world" where
  "get_admin P = run_chain [isAuthenticated P, (\<lambda>w req. (isAdmin req, w))] get_admin_handler"

text \<open>
  Modelled from the spec: the client's cookie store, which is not part of the
  repository. A response sets or clears cookies, and the next request carries the
  cookies the store then holds (spec 8: logout followed by a request with the
  now-cleared cookie).
\<close>

fun apply_cookie :: "cookie_directive \<Rightarrow> (string \<rightharpoonup> token) \<Rightarrow> (string \<rightharpoonup> token)" where
  "apply_cookie (SetCookie name v _ _ _) jar = jar(name \<mapsto> v)"
| "apply_cookie (ClearCookie name) jar = jar(name := None)"

definition jar_after :: "response \<Rightarrow> (string \<rightharpoonup> token) \<Rightarrow> (string \<rightharpoonup> token)" where
  "jar_after res jar = fold apply_cookie (res_cookies res) jar"

section \<open>A sample platform and sample inputs\<close>

text \<open>
  A platform to evaluate the model on: no environment variables set, an email test that
  asks for an \<open>@\<close>, and a stand-in for bcrypt that marks the plaintext instead of
  hashing it (enough to accept the right password, reject the others, and never return
  the plaintext itself).
\<close>

definition demo_platform :: platform where
  "demo_platform =
     \<lparr>env_JWT_SECRET = None, env_NODE_ENV = None,
      bcrypt_hash = (\<lambda>pw rounds salt. CHR ''#'' # pw),
      bcrypt_compare = (\<lambda>pw h. h = CHR ''#'' # pw),
      emailRegex = (\<lambda>s. CHR ''@'' \<in> set s)\<rparr>"

definition alice :: user where
  "alice = \<lparr>user_id = 1, fullName = ''Alice'', email = ''alice@example.com'',
            phone = ''9876543210'', password = ''#password123'', is_admin = False,
            createdAt = Some 1000, updatedAt = Some 1000\<rparr>"

definition carol :: user where
  "carol = \<lparr>user_id = 2, fullName = ''Carol'', email = ''carol@example.com'',
            phone = ''1234567890'', password = ''#adminpassword'', is_admin = True,
            createdAt = Some 1000, updatedAt = Some 1000\<rparr>"

text \<open>A store with a user and an administrator, and the same store with its connection down.\<close>

definition demo_world :: world where
  "demo_world = \<lparr>users_rows = [alice, carol], users_id_seq = 2, db_error = None, now = 2000,
                 entropy = 0, trace = []\<rparr>"

definition broken_world :: world where
  "broken_world = demo_world\<lparr>db_error := Some ''connect ECONNREFUSED''\<rparr>"

text \<open>A request without cookies, and one that carries a token cookie.\<close>

definition anonymous :: request where
  "anonymous = \<lparr>cookies = Map.empty, body = JObj [], user = None\<rparr>"

definition bearer :: "token \<Rightarrow> request" where
  "bearer tok = \<lparr>cookies = [''token'' \<mapsto> tok], body = JObj [], user = None\<rparr>"

text \<open>Request bodies: a registration with its five members as strings, and credentials.\<close>

definition registration_body :: "string \<Rightarrow> string \<Rightarrow> string \<Rightarrow> string \<Rightarrow> string \<Rightarrow> json" where
  "registration_body fn em ph pw cp =
     JObj [(''fullName'', JStr fn), (''email'', JStr em), (''phone'', JStr ph),
           (''password'', JStr pw), (''confirmPassword'', JStr cp)]"

definition login_body :: "string \<Rightarrow> string \<Rightarrow> json" where
  "login_body em pw = JObj [(''email'', JStr em), (''password'', JStr pw)]"

text \<open>A registration that validates and asks for the administrative flag on top.\<close>

definition bob_body :: json where
  "bob_body =
     JObj [(''fullName'', JStr ''Bob''), (''email'', JStr ''bob@example.com''),
           (''phone'', JStr ''5550001111''), (''password'', JStr ''hunter22hunter''),
           (''confirmPassword'', JStr ''hunter22hunter''), (''isAdmin'', JBool True)]"

definition bob :: RegisterUser where
  "bob = \<lparr>reg_fullName = ''Bob'', reg_email = ''bob@example.com'', reg_phone = ''5550001111'',
          reg_password = ''hunter22hunter'', reg_confirmPassword = ''hunter22hunter''\<rparr>"

section \<open>Notions of the specification\<close>

text \<open>The two rejections of the access control middleware.\<close>

definition unauthorized :: response where
  "unauthorized = send 401 (message_json ''Unauthorized'')"

definition forbidden :: response where
  "forbidden = send 403 (message_json ''Forbidden: Admin access required'')"

text \<open>The Credential Store has a user for an id.\<close>

definition store_has_user :: "world \<Rightarrow> nat \<Rightarrow> bool" where
  "store_has_user w i \<longleftrightarrow> (\<exists>u \<in> set (users_rows w). user_id u = i)"

text \<open>
  The contract of the Password Hasher, in the words of the specification (4.1, 8):
  \<open>verify\<close> accepts a plaintext against each of its hashes, and a hash is never the
  plaintext it was made from. It is a hypothesis on the bcrypt of the platform.
\<close>

definition bcrypt_contract :: "platform \<Rightarrow> bool" where
  "bcrypt_contract P \<longleftrightarrow>
     (\<forall>pw rounds salt. bcrypt_compare P pw (bcrypt_hash P pw rounds salt)
        \<and> bcrypt_hash P pw rounds salt \<noteq> pw)"

text \<open>What \<open>register\<close> hands to \<open>createUser\<close> for a validated registration.\<close>

definition insert_of :: "platform \<Rightarrow> world \<Rightarrow> RegisterUser \<Rightarrow> InsertUser" where
  "insert_of P w d =
     \<lparr>new_fullName = reg_fullName d, new_email = reg_email d, new_phone = reg_phone d,
      new_password = bcrypt_hash P (reg_password d) 10 (entropy w), new_isAdmin = False\<rparr>"

text \<open>
  The expensive work in a trace: the number of bcrypt computations, each of which is
  made slow on purpose (spec 4.1: a computationally expensive transform).
\<close>

definition bcrypt_work :: "event list \<Rightarrow> nat" where
  "bcrypt_work es = length (filter (\<lambda>e. e = BcryptHash \<or> e = BcryptCompare) es)"

text \<open>
  The fields of a registration that violate a rule, in the words of the specification
  (4.4): email format, a phone of exactly 10 digits, the minimum length of the password,
  the equality of password and confirmation.
\<close>

definition violated_fields :: "platform \<Rightarrow> string \<Rightarrow> string \<Rightarrow> string \<Rightarrow> string \<Rightarrow> string list" where
  "violated_fields P em ph pw cp =
     (if emailRegex P em then [] else [''email'']) @
     (if length ph = 10 \<and> (\<forall>c \<in> set ph. c \<in> set ''0123456789'') then [] else [''phone'']) @
     (if length pw < 8 then [''password''] else []) @
     (if pw = cp then [] else [''confirmPassword''])"

text \<open>
  The issues of a registration whose five members are strings: those of the checks on
  \<open>email\<close>, \<open>phone\<close> and \<open>password\<close>, then that of the refinement.
\<close>

definition string_issues :: "platform \<Rightarrow> string \<Rightarrow> string \<Rightarrow> string \<Rightarrow> string \<Rightarrow> zod_issue list" where
  "string_issues P em ph pw cp =
     email_check P ''Please enter a valid email address'' [''email''] em
       @ regex_check phone_regex ''Phone number must be 10 digits'' [''phone''] ph
       @ min_check 8 ''Password must be at least 8 characters'' [''password''] pw
       @ (if pw = cp then []
          else [\<lparr>issue_code = ''custom'', issue_path = [''confirmPassword''],
                  issue_message = ''Passwords don't match''\<rparr>])"

text \<open>Uploads that pass every request on, for routes that have none.\<close>

definition no_upload :: "middleware \<Rightarrow> step" where
  "no_upload m = (\<lambda>w req. (Next req, w))"

section \<open>The store, step by step\<close>

lemma emit_fields [simp]:
  "users_rows (emit e w) = users_rows w"
  "users_id_seq (emit e w) = users_id_seq w"
  "db_error (emit e w) = db_error w"
  "now (emit e w) = now w"
  "entropy (emit e w) = entropy w"
  "trace (emit e w) = trace w @ [e]"
  by (simp_all add: emit_def)

lemma first_row_filter: "first_row (filter p xs) = find p xs"
  by (induction xs) auto

lemma getUserById_ok:
  "db_error w = None \<Longrightarrow>
   getUserById w i = (Inr (find (\<lambda>u. user_id u = i) (users_rows w)), emit (DbSelectUserById i) w)"
  by (simp add: getUserById_def db_select_users_def first_row_filter)

lemma getUserById_fails:
  "db_error w = Some m \<Longrightarrow> getUserById w i = (Inl (Error m), emit (DbSelectUserById i) w)"
  by (simp add: getUserById_def db_select_users_def)

lemma getUserByEmail_ok:
  "db_error w = None \<Longrightarrow>
   getUserByEmail w e =
     (Inr (find (\<lambda>u. email u = e) (users_rows w)), emit (DbSelectUserByEmail e) w)"
  by (simp add: getUserByEmail_def db_select_users_def first_row_filter)

lemma getUserByEmail_fails:
  "db_error w = Some m \<Longrightarrow>
   getUserByEmail w e = (Inl (Error m), emit (DbSelectUserByEmail e) w)"
  by (simp add: getUserByEmail_def db_select_users_def)

lemma find_None_store:
  "find (\<lambda>u. user_id u = i) (users_rows w) = None \<longleftrightarrow> \<not> store_has_user w i"
  by (auto simp: find_None_iff store_has_user_def)

lemma emit_irrelevant [simp]:
  "new_row (emit e w) v = new_row w v"
  "insert_of P (emit e w) d = insert_of P w d"
  "generateToken P (emit e w) i = generateToken P w i"
  by (simp_all add: new_row_def insert_of_def generateToken_def)

lemma createUser_ok:
  assumes "db_error w = None"
    and "\<forall>u \<in> set (users_rows w). email u \<noteq> new_email v \<and> phone u \<noteq> new_phone v"
  shows "\<exists>w'. createUser w v = (Inr (Some (new_row w v)), w')
           \<and> users_rows w' = users_rows w @ [new_row w v]
           \<and> db_error w' = None \<and> now w' = now w \<and> entropy w' = entropy w
           \<and> trace w' = trace w @ [DbInsertUser v]"
  using assms
  by (auto simp: createUser_def db_insert_user_def Let_def new_row_def)

lemma createUser_rejects:
  assumes "db_error w \<noteq> None
      \<or> (\<exists>u \<in> set (users_rows w). email u = new_email v \<or> phone u = new_phone v)"
  shows "\<exists>e w'. createUser w v = (Inl (Error e), w') \<and> users_rows w' = users_rows w
           \<and> trace w' = trace w @ [DbInsertUser v]"
  using assms
  by (auto simp: createUser_def db_insert_user_def Let_def split: option.splits if_splits)

lemma hashPassword_fields [simp]:
  "fst (hashPassword P w pw) = bcrypt_hash P pw 10 (entropy w)"
  "users_rows (snd (hashPassword P w pw)) = users_rows w"
  "db_error (snd (hashPassword P w pw)) = db_error w"
  "now (snd (hashPassword P w pw)) = now w"
  "users_id_seq (snd (hashPassword P w pw)) = users_id_seq w"
  "entropy (snd (hashPassword P w pw)) = Suc (entropy w)"
  "trace (snd (hashPassword P w pw)) = trace w @ [BcryptHash]"
  by (simp_all add: hashPassword_def)

lemma bcrypt_work_simps [simp]:
  "bcrypt_work [] = 0"
  "bcrypt_work (es @ es') = bcrypt_work es + bcrypt_work es'"
  "bcrypt_work (BcryptCompare # es) = Suc (bcrypt_work es)"
  "bcrypt_work (BcryptHash # es) = Suc (bcrypt_work es)"
  "bcrypt_work (DbSelectUserByEmail e # es) = bcrypt_work es"
  "bcrypt_work (DbSelectUserById i # es) = bcrypt_work es"
  "bcrypt_work (DbInsertUser v # es) = bcrypt_work es"
  "bcrypt_work (ConsoleError l t # es) = bcrypt_work es"
  by (simp_all add: bcrypt_work_def)

text \<open>The sample platform and the sample store, evaluated.\<close>

lemma demo_compare [simp]: "bcrypt_compare demo_platform pw h \<longleftrightarrow> h = CHR ''#'' # pw"
  by (simp add: demo_platform_def)

lemma demo_hash [simp]: "bcrypt_hash demo_platform pw rounds salt = CHR ''#'' # pw"
  by (simp add: demo_platform_def)

lemma demo_bcrypt: "bcrypt_contract demo_platform"
  by (simp add: bcrypt_contract_def demo_platform_def)

lemma demo_world_fields [simp]:
  "users_rows demo_world = [alice, carol]"
  "db_error demo_world = None"
  "now demo_world = 2000"
  "trace demo_world = []"
  "entropy demo_world = 0"
  "users_id_seq demo_world = 2"
  by (simp_all add: demo_world_def)

lemma bob_validates: "registerUserSchema demo_platform bob_body = Inr bob"
  by (simp add: registerUserSchema_def zod_object_def bob_body_def bob_def zod_string_def member_def
      no_checks_def email_check_def regex_check_def phone_regex_def min_check_def
      passwords_match_def demo_platform_def Let_def)

lemma demo_login_validates:
  "CHR ''@'' \<in> set em \<Longrightarrow> pw \<noteq> [] \<Longrightarrow>
   loginSchema demo_platform (login_body em pw) = Inr \<lparr>cred_email = em, cred_password = pw\<rparr>"
  by (cases pw)
    (simp_all add: loginSchema_def zod_object_def login_body_def zod_string_def member_def email_check_def
      min_check_def demo_platform_def Let_def)

section \<open>Token issue and verification\<close>

text \<open>
  C5. A token verified at the moment it was issued for a user id is accepted and decodes
  to that id, and so it is at any later moment less than seven days (604800 seconds)
  after; from seven days on it is rejected. A string that is no token, a token whose
  signature is not the MAC of its payload under the secret (a flipped signature, or a
  payload changed under the old signature) and a token past its expiry all give \<open>None\<close>,
  the \<open>null\<close> of the source: \<open>verifyToken\<close> has no other result, it does not throw.
\<close>

theorem token_round_trip:
  "verifyToken P w (generateToken P w userId) =
     Some \<lparr>claim_id = userId, iat = now w, exp = now w + 604800\<rparr>
   \<and> (\<forall>w'. now w \<le> now w' \<and> now w' < now w + 604800 \<longrightarrow>
         (\<exists>d. verifyToken P w' (generateToken P w userId) = Some d \<and> claim_id d = userId))
   \<and> (\<forall>w'. now w + 604800 \<le> now w' \<longrightarrow> verifyToken P w' (generateToken P w userId) = None)
   \<and> (\<forall>s. verifyToken P w (NotJws s) = None)
   \<and> (\<forall>d sg. sg \<noteq> HS256 (JWT_SECRET P) d \<longrightarrow> verifyToken P w (Jws d sg) = None)
   \<and> (\<forall>d d'. d' \<noteq> d \<longrightarrow> verifyToken P w (Jws d' (HS256 (JWT_SECRET P) d)) = None)
   \<and> (\<forall>d sg. exp d \<le> now w \<longrightarrow> verifyToken P w (Jws d sg) = None)"
  by (auto simp: verifyToken_def generateToken_def jwt_verify_def jwt_sign_def Let_def)

theorem token_round_trip_witness:
  "verifyToken demo_platform demo_world (generateToken demo_platform demo_world 1) =
     Some \<lparr>claim_id = 1, iat = 2000, exp = 606800\<rparr>
   \<and> verifyToken demo_platform (demo_world\<lparr>now := 606800\<rparr>)
        (generateToken demo_platform demo_world 1) = None
   \<and> verifyToken demo_platform demo_world
        (Jws \<lparr>claim_id = 1, iat = 2000, exp = 606800\<rparr> (Bytes ''AAAA'')) = None
   \<and> verifyToken demo_platform demo_world
        (Jws \<lparr>claim_id = 2, iat = 2000, exp = 606800\<rparr>
           (HS256 (JWT_SECRET demo_platform) \<lparr>claim_id = 1, iat = 2000, exp = 606800\<rparr>)) = None"
  using token_round_trip [of demo_platform demo_world 1]
  by (simp add: demo_world_def)

section \<open>The authentication middleware\<close>

text \<open>\<open>isAuthenticated\<close>, with the outcomes of the store's lookup written out.\<close>

lemma isAuthenticated_result:
  "isAuthenticated P w req =
     (case cookies req ''token'' of
        None \<Rightarrow> (Responded unauthorized, w)
      | Some tok \<Rightarrow>
          (case verifyToken P w tok of
             None \<Rightarrow> (Responded unauthorized, w)
           | Some d \<Rightarrow>
               (case db_error w of
                  Some m \<Rightarrow>
                    (Responded unauthorized,
                     emit (ConsoleError ''Authentication error:'' (Error m))
                       (emit (DbSelectUserById (claim_id d)) w))
                | None \<Rightarrow>
                    (case find (\<lambda>u. user_id u = claim_id d) (users_rows w) of
                       None \<Rightarrow> (Responded unauthorized, emit (DbSelectUserById (claim_id d)) w)
                     | Some u \<Rightarrow>
                         (Next (req\<lparr>user := Some u\<rparr>), emit (DbSelectUserById (claim_id d)) w)))))"
proof (cases "cookies req ''token''")
  case None
  then show ?thesis by (simp add: isAuthenticated_def unauthorized_def)
next
  case (Some tok)
  note cookie = this
  show ?thesis
  proof (cases "verifyToken P w tok")
    case None
    with cookie show ?thesis by (simp add: isAuthenticated_def unauthorized_def)
  next
    case (Some d)
    note decoded = this
    then have ne: "tok \<noteq> NotJws []"
      by (auto simp: verifyToken_def jwt_verify_def)
    show ?thesis
    proof (cases "db_error w")
      case None
      with decoded cookie ne show ?thesis
        by (simp add: isAuthenticated_def unauthorized_def getUserById_ok split: option.splits)
    next
      case (Some m)
      with decoded cookie ne show ?thesis
        by (simp add: isAuthenticated_def unauthorized_def getUserById_fails)
    qed
  qed
qed

text \<open>
  C1, as the code has it. \<open>isAuthenticated\<close> answers 401 exactly when the token
  cookie is missing, or \<open>verifyToken\<close> gives \<open>null\<close> for its value (which covers the empty
  cookie), or the lookup of the decoded id fails with an error, or the store has no user
  for that id. In every other case it passes the request on with the store's user for
  the decoded id attached.
\<close>

theorem isAuthenticated_rejects_iff:
  "(fst (isAuthenticated P w req) = Responded unauthorized) =
     (cookies req ''token'' = None
      \<or> (\<exists>tok. cookies req ''token'' = Some tok \<and> verifyToken P w tok = None)
      \<or> (\<exists>tok d. cookies req ''token'' = Some tok \<and> verifyToken P w tok = Some d
            \<and> (db_error w \<noteq> None \<or> \<not> store_has_user w (claim_id d))))
   \<and> (fst (isAuthenticated P w req) \<noteq> Responded unauthorized \<longrightarrow>
        (\<exists>tok d u. cookies req ''token'' = Some tok \<and> verifyToken P w tok = Some d
             \<and> find (\<lambda>u. user_id u = claim_id d) (users_rows w) = Some u
             \<and> fst (isAuthenticated P w req) = Next (req\<lparr>user := Some u\<rparr>)))"
  by (auto simp: isAuthenticated_result find_None_store [symmetric] split: option.splits)

theorem isAuthenticated_rejects_iff_witness:
  "fst (isAuthenticated demo_platform demo_world (bearer (generateToken demo_platform demo_world 2)))
     = Next ((bearer (generateToken demo_platform demo_world 2))\<lparr>user := Some carol\<rparr>)
   \<and> fst (isAuthenticated demo_platform demo_world anonymous) = Responded unauthorized
   \<and> fst (isAuthenticated demo_platform demo_world (bearer (generateToken demo_platform demo_world 3)))
     = Responded unauthorized"
proof -
  let ?t2 = "generateToken demo_platform demo_world 2"
  let ?t3 = "generateToken demo_platform demo_world 3"
  have v2: "verifyToken demo_platform demo_world ?t2 = Some \<lparr>claim_id = 2, iat = 2000, exp = 606800\<rparr>"
    by (simp add: generateToken_def jwt_sign_def verifyToken_def jwt_verify_def demo_world_def Let_def)
  have v3: "verifyToken demo_platform demo_world ?t3 = Some \<lparr>claim_id = 3, iat = 2000, exp = 606800\<rparr>"
    by (simp add: generateToken_def jwt_sign_def verifyToken_def jwt_verify_def demo_world_def Let_def)
  have s2: "store_has_user demo_world 2" and s3: "\<not> store_has_user demo_world 3"
    and ok: "db_error demo_world = None"
    and f2: "find (\<lambda>u. user_id u = 2) (users_rows demo_world) = Some carol"
    by (simp_all add: store_has_user_def demo_world_def alice_def carol_def)
  have "fst (isAuthenticated demo_platform demo_world (bearer ?t2)) =
      Next ((bearer ?t2)\<lparr>user := Some carol\<rparr>)"
    using isAuthenticated_rejects_iff [of demo_platform demo_world "bearer ?t2"] v2 s2 ok f2
    by (auto simp: bearer_def alice_def carol_def)
  moreover have "fst (isAuthenticated demo_platform demo_world anonymous) = Responded unauthorized"
    using isAuthenticated_rejects_iff [of demo_platform demo_world anonymous]
    by (simp add: anonymous_def)
  moreover have "fst (isAuthenticated demo_platform demo_world (bearer ?t3)) = Responded unauthorized"
    using isAuthenticated_rejects_iff [of demo_platform demo_world "bearer ?t3"] v3 s3
    by (auto simp: bearer_def)
  ultimately show ?thesis by blast
qed

text \<open>
  The claim without the failing lookup does not hold: with the connection to the store
  down, a request whose cookie is present, whose token verifies and whose user is in the
  store is answered 401.
\<close>

theorem isAuthenticated_store_failure_counterexample:
  "fst (isAuthenticated demo_platform broken_world
          (bearer (generateToken demo_platform broken_world 1)))
     = Responded unauthorized
   \<and> cookies (bearer (generateToken demo_platform broken_world 1)) ''token''
       = Some (generateToken demo_platform broken_world 1)
   \<and> verifyToken demo_platform broken_world (generateToken demo_platform broken_world 1)
       = Some \<lparr>claim_id = 1, iat = 2000, exp = 606800\<rparr>
   \<and> store_has_user broken_world 1"
  by (simp add: isAuthenticated_result bearer_def generateToken_def jwt_sign_def verifyToken_def
      jwt_verify_def broken_world_def demo_world_def store_has_user_def alice_def Let_def)

section \<open>The authorization middleware\<close>

lemma isAdmin_cases:
  "isAdmin req =
     (if \<exists>u. user req = Some u \<and> is_admin u then Next req else Responded forbidden)"
  by (auto simp: isAdmin_def forbidden_def split: option.splits)

text \<open>
  C2. \<open>isAdmin\<close> answers 403 Forbidden when no user is attached to the request and when
  the attached user's administrative flag is false; it has a result in both cases, it
  does not throw. When the flag is true it passes the request on. On \<open>GET /admin\<close>, a
  request \<open>isAuthenticated\<close> passed on is answered 200 with \<open>{isAdmin: true}\<close> when
  the user it attached is an administrator, and 403 otherwise.
\<close>

theorem isAdmin_forbids_or_passes:
  "(user req = None \<longrightarrow> isAdmin req = Responded forbidden)
   \<and> (user req = Some u \<and> \<not> is_admin u \<longrightarrow> isAdmin req = Responded forbidden)
   \<and> (user req = Some u \<and> is_admin u \<longrightarrow> isAdmin req = Next req)
   \<and> res_status forbidden = 403
   \<and> (isAuthenticated P w req0 = (Next req', w') \<and> user req' = Some u' \<longrightarrow>
         get_admin P w req0 =
           (if is_admin u' then send 200 (JObj [(''isAdmin'', JBool True)]) else forbidden, w'))"
  by (auto simp: isAdmin_cases get_admin_def get_admin_handler_def forbidden_def send_def)

theorem isAdmin_forbids_or_passes_witness:
  "isAdmin anonymous = Responded forbidden
   \<and> fst (get_admin demo_platform demo_world (bearer (generateToken demo_platform demo_world 1)))
       = forbidden
   \<and> fst (get_admin demo_platform demo_world (bearer (generateToken demo_platform demo_world 2)))
       = \<lparr>res_status = 200, res_json = JObj [(''isAdmin'', JBool True)], res_cookies = []\<rparr>"
proof -
  let ?r1 = "bearer (generateToken demo_platform demo_world 1)"
  let ?r2 = "bearer (generateToken demo_platform demo_world 2)"
  have a: "isAuthenticated demo_platform demo_world ?r1 =
      (Next (?r1\<lparr>user := Some alice\<rparr>), emit (DbSelectUserById 1) demo_world)"
    by (simp add: isAuthenticated_result bearer_def generateToken_def jwt_sign_def
        verifyToken_def jwt_verify_def demo_world_def alice_def carol_def Let_def)
  have c: "isAuthenticated demo_platform demo_world ?r2 =
      (Next (?r2\<lparr>user := Some carol\<rparr>), emit (DbSelectUserById 2) demo_world)"
    by (simp add: isAuthenticated_result bearer_def generateToken_def jwt_sign_def
        verifyToken_def jwt_verify_def demo_world_def alice_def carol_def Let_def)
  have n: "user anonymous = None"
    by (simp add: anonymous_def)
  have "isAdmin anonymous = Responded forbidden"
    using isAdmin_forbids_or_passes [where req = anonymous] n by blast
  moreover have "fst (get_admin demo_platform demo_world ?r1) = forbidden"
    using isAdmin_forbids_or_passes [where P = demo_platform and w = demo_world and ?req0.0 = ?r1
        and u' = alice and req' = "?r1\<lparr>user := Some alice\<rparr>"
        and w' = "emit (DbSelectUserById 1) demo_world"] a
    by (simp add: alice_def)
  moreover have "fst (get_admin demo_platform demo_world ?r2) =
       \<lparr>res_status = 200, res_json = JObj [(''isAdmin'', JBool True)], res_cookies = []\<rparr>"
    using isAdmin_forbids_or_passes [where P = demo_platform and w = demo_world and ?req0.0 = ?r2
        and u' = carol and req' = "?r2\<lparr>user := Some carol\<rparr>"
        and w' = "emit (DbSelectUserById 2) demo_world"] c
    by (simp add: carol_def send_def)
  ultimately show ?thesis by blast
qed

section \<open>Registration\<close>

lemma register_split:
  "register P w d =
     (case createUser (snd (hashPassword P w (reg_password d))) (insert_of P w d) of
        (Inl error, w2) \<Rightarrow>
          (Inl (Error ''Failed to register user''),
           emit (ConsoleError ''Registration error:'' error) w2)
      | (Inr None, w2) \<Rightarrow>
          (Inl (Error ''Failed to register user''),
           emit (ConsoleError ''Registration error:''
                   (Error ''Cannot read properties of undefined'')) w2)
      | (Inr (Some u), w2) \<Rightarrow> (Inr (u, generateToken P w2 (user_id u)), w2))"
  by (simp add: register_def insert_of_def hashPassword_def)

lemma register_ok:
  assumes "db_error w = None"
    and "\<forall>u \<in> set (users_rows w). email u \<noteq> reg_email d \<and> phone u \<noteq> reg_phone d"
  shows "\<exists>w'. register P w d =
             (Inr (new_row w (insert_of P w d),
                   generateToken P w (Suc (users_id_seq w))), w')
           \<and> users_rows w' = users_rows w @ [new_row w (insert_of P w d)]
           \<and> now w' = now w \<and> db_error w' = None
           \<and> trace w' = trace w @ [BcryptHash, DbInsertUser (insert_of P w d)]"
proof -
  let ?w1 = "snd (hashPassword P w (reg_password d))"
  let ?v = "insert_of P w d"
  have "db_error ?w1 = None"
    and "\<forall>u \<in> set (users_rows ?w1). email u \<noteq> new_email ?v \<and> phone u \<noteq> new_phone ?v"
    using assms by (simp_all add: insert_of_def)
  from createUser_ok [OF this] obtain w' where
    c: "createUser ?w1 ?v = (Inr (Some (new_row ?w1 ?v)), w')"
    and r: "users_rows w' = users_rows ?w1 @ [new_row ?w1 ?v]"
    and n: "now w' = now ?w1" and e: "db_error w' = None"
    and t: "trace w' = trace ?w1 @ [DbInsertUser ?v]"
    by blast
  have i: "new_row ?w1 ?v = new_row w ?v"
    by (simp add: new_row_def)
  have g: "generateToken P w' (user_id (new_row w ?v)) = generateToken P w (Suc (users_id_seq w))"
    using n by (simp add: generateToken_def new_row_def)
  show ?thesis
    using c r n t e by (simp add: register_split i g)
qed

lemma register_fails:
  assumes "db_error w \<noteq> None \<or> (\<exists>u \<in> set (users_rows w). email u = reg_email d \<or> phone u = reg_phone d)"
  shows "\<exists>e w'. register P w d = (Inl (Error ''Failed to register user''), w')
           \<and> users_rows w' = users_rows w
           \<and> trace w' = trace w @ [BcryptHash, DbInsertUser (insert_of P w d),
                 ConsoleError ''Registration error:'' (Error e)]"
proof -
  let ?w1 = "snd (hashPassword P w (reg_password d))"
  let ?v = "insert_of P w d"
  have "db_error ?w1 \<noteq> None \<or> (\<exists>u \<in> set (users_rows ?w1). email u = new_email ?v \<or> phone u = new_phone ?v)"
    using assms by (simp add: insert_of_def)
  from createUser_rejects [OF this] obtain e w' where
    "createUser ?w1 ?v = (Inl (Error e), w')" "users_rows w' = users_rows ?w1"
    "trace w' = trace ?w1 @ [DbInsertUser ?v]"
    by blast
  then show ?thesis
    by (simp add: register_split)
qed

text \<open>The three ways \<open>POST /register\<close> goes on a payload that validates, the store working.\<close>

lemma post_register_created:
  assumes "registerUserSchema P (body req) = Inr d"
    and "db_error w = None"
    and "\<forall>u \<in> set (users_rows w). email u \<noteq> reg_email d \<and> phone u \<noteq> reg_phone d"
  shows "\<exists>w'. post_register P w req =
             (\<lparr>res_status = 201,
               res_json = JObj [(''user'', user_json (new_row w (insert_of P w d)))],
               res_cookies = [token_cookie P (generateToken P w (Suc (users_id_seq w)))]\<rparr>, w')
           \<and> users_rows w' = users_rows w @ [new_row w (insert_of P w d)]
           \<and> now w' = now w \<and> db_error w' = None
           \<and> trace w' = trace w @ [DbSelectUserByEmail (reg_email d), BcryptHash,
                 DbInsertUser (insert_of P w d)]"
proof -
  let ?w0 = "emit (DbSelectUserByEmail (reg_email d)) w"
  have none: "find (\<lambda>u. email u = reg_email d) (users_rows w) = None"
    using assms(3) by (simp add: find_None_iff)
  have "db_error ?w0 = None"
    and "\<forall>u \<in> set (users_rows ?w0). email u \<noteq> reg_email d \<and> phone u \<noteq> reg_phone d"
    using assms by simp_all
  from register_ok [OF this, of P] obtain w' where
    r: "register P ?w0 d =
         (Inr (new_row ?w0 (insert_of P ?w0 d), generateToken P ?w0 (Suc (users_id_seq ?w0))), w')"
    and rows: "users_rows w' = users_rows ?w0 @ [new_row ?w0 (insert_of P ?w0 d)]"
    and n: "now w' = now ?w0" and e: "db_error w' = None"
    and t: "trace w' = trace ?w0 @ [BcryptHash, DbInsertUser (insert_of P ?w0 d)]"
    by blast
  show ?thesis
    using assms(1,2) none r rows n e t
    by (simp add: post_register_def getUserByEmail_ok)
qed

lemma post_register_known_email:
  assumes "registerUserSchema P (body req) = Inr d"
    and "db_error w = None"
    and "\<exists>u \<in> set (users_rows w). email u = reg_email d"
  shows "post_register P w req =
           (send 400 (message_json ''Email already in use''),
            emit (DbSelectUserByEmail (reg_email d)) w)"
proof -
  from assms(3) obtain u where "find (\<lambda>u. email u = reg_email d) (users_rows w) = Some u"
    by (cases "find (\<lambda>u. email u = reg_email d) (users_rows w)") (auto simp: find_None_iff)
  with assms(1,2) show ?thesis
    by (simp add: post_register_def getUserByEmail_ok)
qed

text \<open>
  C3. For a payload that validates, with an email and a phone no user has yet (and the
  store working), \<open>POST /register\<close> answers 201 with the created user and the token
  cookie, and the table has exactly one row more: that user, whose administrative flag
  is false whatever the payload said, and whose \<open>password\<close> column holds the bcrypt
  hash of the submitted password: a hash that \<open>comparePasswords\<close>, the verify of
  auth.ts, accepts for the submitted password in the world after the registration, and
  that is not the submitted password. That the hash is accepted and differs from the
  plaintext rests on the contract of bcrypt.
\<close>

theorem register_creates_one_user:
  assumes "registerUserSchema P (body req) = Inr d"
    and "db_error w = None"
    and "\<forall>u \<in> set (users_rows w). email u \<noteq> reg_email d \<and> phone u \<noteq> reg_phone d"
    and "bcrypt_contract P"
  shows "\<exists>u tok w'.
           post_register P w req =
             (\<lparr>res_status = 201, res_json = JObj [(''user'', user_json u)],
               res_cookies = [token_cookie P tok]\<rparr>, w')
         \<and> users_rows w' = users_rows w @ [u]
         \<and> is_admin u = False
         \<and> fullName u = reg_fullName d \<and> email u = reg_email d \<and> phone u = reg_phone d
         \<and> password u = bcrypt_hash P (reg_password d) 10 (entropy w)
         \<and> fst (comparePasswords P w' (reg_password d) (password u))
         \<and> bcrypt_compare P (reg_password d) (password u)
         \<and> password u \<noteq> reg_password d"
proof -
  let ?u = "new_row w (insert_of P w d)"
  from post_register_created [OF assms(1-3)] obtain w' where
    "post_register P w req =
       (\<lparr>res_status = 201, res_json = JObj [(''user'', user_json ?u)],
         res_cookies = [token_cookie P (generateToken P w (Suc (users_id_seq w)))]\<rparr>, w')"
    "users_rows w' = users_rows w @ [?u]"
    by blast
  moreover have "is_admin ?u = False" "fullName ?u = reg_fullName d" "email ?u = reg_email d"
    "phone ?u = reg_phone d" "password ?u = bcrypt_hash P (reg_password d) 10 (entropy w)"
    by (simp_all add: new_row_def insert_of_def)
  moreover have "bcrypt_compare P (reg_password d) (password ?u)"
    "password ?u \<noteq> reg_password d"
    using assms(4) by (simp_all add: new_row_def insert_of_def bcrypt_contract_def)
  moreover have "fst (comparePasswords P w' (reg_password d) (password ?u))"
    using assms(4) by (simp add: comparePasswords_def new_row_def insert_of_def bcrypt_contract_def)
  ultimately show ?thesis by blast
qed

theorem register_creates_one_user_witness:
  "registerUserSchema demo_platform (body (anonymous\<lparr>body := bob_body\<rparr>)) = Inr bob
   \<and> bcrypt_contract demo_platform
   \<and> (\<exists>u tok w'.
         post_register demo_platform demo_world (anonymous\<lparr>body := bob_body\<rparr>) =
           (\<lparr>res_status = 201, res_json = JObj [(''user'', user_json u)],
             res_cookies = [token_cookie demo_platform tok]\<rparr>, w')
       \<and> users_rows w' = [alice, carol, u]
       \<and> is_admin u = False
       \<and> fullName u = ''Bob'' \<and> email u = ''bob@example.com'' \<and> phone u = ''5550001111''
       \<and> password u = ''#hunter22hunter''
       \<and> fst (comparePasswords demo_platform w' ''hunter22hunter'' (password u))
       \<and> bcrypt_compare demo_platform ''hunter22hunter'' (password u)
       \<and> password u \<noteq> ''hunter22hunter'')"
proof -
  have v: "registerUserSchema demo_platform (body (anonymous\<lparr>body := bob_body\<rparr>)) = Inr bob"
    by (simp add: bob_validates)
  have ok: "db_error demo_world = None"
    by (simp add: demo_world_def)
  have fresh: "\<forall>u \<in> set (users_rows demo_world). email u \<noteq> reg_email bob \<and> phone u \<noteq> reg_phone bob"
    by (simp add: demo_world_def alice_def carol_def bob_def)
  show ?thesis
    using register_creates_one_user [OF v ok fresh demo_bcrypt] v demo_bcrypt
    by (auto simp: bob_def)
qed

text \<open>
  C6. For a payload that validates (the store working): when a user with the submitted
  email is in the store, \<open>POST /register\<close> answers 400 \<open>Email already in use\<close>, the
  table is as it was, and all that was done is the lookup by email: nothing was hashed
  (no salt drawn) and nothing inserted. And when a first registration with a fresh
  email and phone is followed by a second one with the same email, the first answers
  201, the second 400 \<open>Email already in use\<close>, and the table then holds exactly one user
  with that email.
\<close>

theorem register_rejects_known_email:
  assumes "registerUserSchema P (body req) = Inr d"
    and "db_error w = None"
  shows "((\<exists>u \<in> set (users_rows w). email u = reg_email d) \<longrightarrow>
            (\<exists>w'. post_register P w req =
                     (send 400 (message_json ''Email already in use''), w')
                 \<and> users_rows w' = users_rows w \<and> entropy w' = entropy w
                 \<and> trace w' = trace w @ [DbSelectUserByEmail (reg_email d)]))
       \<and> ((\<forall>u \<in> set (users_rows w). email u \<noteq> reg_email d \<and> phone u \<noteq> reg_phone d)
            \<and> registerUserSchema P (body req') = Inr d' \<and> reg_email d' = reg_email d \<longrightarrow>
            (\<exists>res1 w1 w2. post_register P w req = (res1, w1) \<and> res_status res1 = 201
                 \<and> post_register P w1 req' =
                     (send 400 (message_json ''Email already in use''), w2)
                 \<and> length (filter (\<lambda>u. email u = reg_email d) (users_rows w2)) = 1))"
proof (intro conjI impI)
  assume "\<exists>u \<in> set (users_rows w). email u = reg_email d"
  from post_register_known_email [OF assms this]
  show "\<exists>w'. post_register P w req = (send 400 (message_json ''Email already in use''), w')
                 \<and> users_rows w' = users_rows w \<and> entropy w' = entropy w
                 \<and> trace w' = trace w @ [DbSelectUserByEmail (reg_email d)]"
    by simp
next
  assume a: "(\<forall>u \<in> set (users_rows w). email u \<noteq> reg_email d \<and> phone u \<noteq> reg_phone d)
            \<and> registerUserSchema P (body req') = Inr d' \<and> reg_email d' = reg_email d"
  then have fresh: "\<forall>u \<in> set (users_rows w). email u \<noteq> reg_email d \<and> phone u \<noteq> reg_phone d"
    and v': "registerUserSchema P (body req') = Inr d'" and same: "reg_email d' = reg_email d"
    by blast+
  let ?u = "new_row w (insert_of P w d)"
  from post_register_created [OF assms fresh] obtain res1 w1 where
    first: "post_register P w req = (res1, w1)" "res_status res1 = 201"
    and rows: "users_rows w1 = users_rows w @ [?u]" and ok1: "db_error w1 = None"
    by force
  have mail: "email ?u = reg_email d"
    by (simp add: new_row_def insert_of_def)
  then have "\<exists>u \<in> set (users_rows w1). email u = reg_email d'"
    using rows same by simp
  from post_register_known_email [OF v' ok1 this]
  have second: "post_register P w1 req' =
      (send 400 (message_json ''Email already in use''), emit (DbSelectUserByEmail (reg_email d')) w1)" .
  have "filter (\<lambda>u. email u = reg_email d) (users_rows w) = []"
    using fresh by (simp add: filter_empty_conv)
  then have "length (filter (\<lambda>u. email u = reg_email d)
      (users_rows (emit (DbSelectUserByEmail (reg_email d')) w1))) = 1"
    using rows mail by simp
  with first second
  show "\<exists>res1 w1 w2. post_register P w req = (res1, w1) \<and> res_status res1 = 201
                 \<and> post_register P w1 req' =
                     (send 400 (message_json ''Email already in use''), w2)
                 \<and> length (filter (\<lambda>u. email u = reg_email d) (users_rows w2)) = 1"
    by blast
qed

theorem register_rejects_known_email_witness:
  "(\<exists>w'. post_register demo_platform demo_world
            (anonymous\<lparr>body := registration_body ''Alice Again'' ''alice@example.com'' ''5550002222''
               ''longpassword'' ''longpassword''\<rparr>) =
            (send 400 (message_json ''Email already in use''), w')
        \<and> users_rows w' = [alice, carol] \<and> entropy w' = 0
        \<and> trace w' = [DbSelectUserByEmail ''alice@example.com''])
   \<and> (\<exists>res1 w1 w2.
          post_register demo_platform demo_world (anonymous\<lparr>body := bob_body\<rparr>) = (res1, w1)
        \<and> res_status res1 = 201
        \<and> post_register demo_platform w1 (anonymous\<lparr>body := bob_body\<rparr>) =
            (send 400 (message_json ''Email already in use''), w2)
        \<and> length (filter (\<lambda>u. email u = ''bob@example.com'') (users_rows w2)) = 1)"
proof -
  let ?again = "\<lparr>reg_fullName = ''Alice Again'', reg_email = ''alice@example.com'',
      reg_phone = ''5550002222'', reg_password = ''longpassword'',
      reg_confirmPassword = ''longpassword''\<rparr>"
  let ?req = "anonymous\<lparr>body := registration_body ''Alice Again'' ''alice@example.com'' ''5550002222''
               ''longpassword'' ''longpassword''\<rparr>"
  have v: "registerUserSchema demo_platform (body ?req) = Inr ?again"
    by (simp add: registerUserSchema_def zod_object_def registration_body_def zod_string_def member_def
        no_checks_def email_check_def regex_check_def phone_regex_def min_check_def
        passwords_match_def demo_platform_def Let_def)
  have vb: "registerUserSchema demo_platform (body (anonymous\<lparr>body := bob_body\<rparr>)) = Inr bob"
    by (simp add: bob_validates)
  have ok: "db_error demo_world = None"
    by simp
  have known: "\<exists>u \<in> set (users_rows demo_world). email u = reg_email ?again"
    by (simp add: alice_def)
  have fresh: "\<forall>u \<in> set (users_rows demo_world).
      email u \<noteq> reg_email bob \<and> phone u \<noteq> reg_phone bob"
    by (simp add: alice_def carol_def bob_def)
  have "\<exists>w'. post_register demo_platform demo_world ?req =
            (send 400 (message_json ''Email already in use''), w')
        \<and> users_rows w' = [alice, carol] \<and> entropy w' = 0
        \<and> trace w' = [DbSelectUserByEmail ''alice@example.com'']"
    using register_rejects_known_email [OF v ok, THEN conjunct1] known
    by (simp add: alice_def)
  moreover have "\<exists>res1 w1 w2.
          post_register demo_platform demo_world (anonymous\<lparr>body := bob_body\<rparr>) = (res1, w1)
        \<and> res_status res1 = 201
        \<and> post_register demo_platform w1 (anonymous\<lparr>body := bob_body\<rparr>) =
            (send 400 (message_json ''Email already in use''), w2)
        \<and> length (filter (\<lambda>u. email u = ''bob@example.com'') (users_rows w2)) = 1"
    using register_rejects_known_email [where req' = "anonymous\<lparr>body := bob_body\<rparr>"
        and d' = bob, OF vb ok, THEN conjunct2] fresh vb
    by (simp add: bob_def)
  ultimately show ?thesis by blast
qed

section \<open>Failures of the store\<close>

text \<open>
  C7, as the code has it. A failure of the store is caught where it arises and answered
  with a fixed message that does not depend on the failure, whose detail goes to the
  server's console only. During registration the answer is 500 \<open>Failed to register
  user\<close>, both when the connection is down and when the insert is rejected by the
  store (a phone already taken), and no user is created. During the authentication
  middleware the answer is 401 \<open>Unauthorized\<close>. Every handler of the model returns a
  response: none of them has a thrown value as its result.
\<close>

theorem store_failure_is_answered_generically:
  "(db_error w = Some m \<and> registerUserSchema P (body req) = Inr d \<longrightarrow>
      post_register P w req =
        (send 500 (message_json ''Failed to register user''),
         emit (ConsoleError ''Registration error:'' (Error m))
           (emit (DbSelectUserByEmail (reg_email d)) w)))
   \<and> (db_error w = None \<and> registerUserSchema P (body req) = Inr d
        \<and> (\<forall>u \<in> set (users_rows w). email u \<noteq> reg_email d)
        \<and> (\<exists>u \<in> set (users_rows w). phone u = reg_phone d) \<longrightarrow>
      fst (post_register P w req) = send 500 (message_json ''Failed to register user'')
      \<and> users_rows (snd (post_register P w req)) = users_rows w)
   \<and> (db_error w = Some m \<and> cookies req ''token'' = Some tok \<and> verifyToken P w tok = Some p \<longrightarrow>
      isAuthenticated P w req =
        (Responded unauthorized,
         emit (ConsoleError ''Authentication error:'' (Error m))
           (emit (DbSelectUserById (claim_id p)) w)))"
proof -
  have down: "post_register P w req =
        (send 500 (message_json ''Failed to register user''),
         emit (ConsoleError ''Registration error:'' (Error m))
           (emit (DbSelectUserByEmail (reg_email d)) w))"
    if "db_error w = Some m" "registerUserSchema P (body req) = Inr d"
    using that by (simp add: post_register_def getUserByEmail_fails)
  have dup: "fst (post_register P w req) = send 500 (message_json ''Failed to register user'')
      \<and> users_rows (snd (post_register P w req)) = users_rows w"
    if ok: "db_error w = None" and v: "registerUserSchema P (body req) = Inr d"
      and fresh: "\<forall>u \<in> set (users_rows w). email u \<noteq> reg_email d"
      and taken: "\<exists>u \<in> set (users_rows w). phone u = reg_phone d"
  proof -
    let ?w0 = "emit (DbSelectUserByEmail (reg_email d)) w"
    have none: "find (\<lambda>u. email u = reg_email d) (users_rows w) = None"
      using fresh by (simp add: find_None_iff)
    have "db_error ?w0 \<noteq> None
        \<or> (\<exists>u \<in> set (users_rows ?w0). email u = reg_email d \<or> phone u = reg_phone d)"
      using taken by auto
    from register_fails [OF this, of P] obtain e w' where
      "register P ?w0 d = (Inl (Error ''Failed to register user''), w')"
      "users_rows w' = users_rows ?w0"
      by blast
    with ok v none show ?thesis
      by (simp add: post_register_def getUserByEmail_ok)
  qed
  have auth: "isAuthenticated P w req =
        (Responded unauthorized,
         emit (ConsoleError ''Authentication error:'' (Error m))
           (emit (DbSelectUserById (claim_id p)) w))"
    if "db_error w = Some m" "cookies req ''token'' = Some tok" "verifyToken P w tok = Some p"
    using that by (simp add: isAuthenticated_result)
  from down dup auth show ?thesis by blast
qed

theorem store_failure_is_answered_generically_witness:
  "post_register demo_platform broken_world (anonymous\<lparr>body := bob_body\<rparr>) =
     (send 500 (message_json ''Failed to register user''),
      emit (ConsoleError ''Registration error:'' (Error ''connect ECONNREFUSED''))
        (emit (DbSelectUserByEmail ''bob@example.com'') broken_world))
   \<and> isAuthenticated demo_platform broken_world (bearer (generateToken demo_platform broken_world 1)) =
     (Responded unauthorized,
      emit (ConsoleError ''Authentication error:'' (Error ''connect ECONNREFUSED''))
        (emit (DbSelectUserById 1) broken_world))"
proof -
  let ?t = "generateToken demo_platform broken_world 1"
  have e: "db_error broken_world = Some ''connect ECONNREFUSED''"
    by (simp add: broken_world_def)
  have v: "registerUserSchema demo_platform (body (anonymous\<lparr>body := bob_body\<rparr>)) = Inr bob"
    by (simp add: bob_validates)
  have c: "cookies (bearer ?t) ''token'' = Some ?t"
    by (simp add: bearer_def)
  have t: "verifyToken demo_platform broken_world ?t = Some \<lparr>claim_id = 1, iat = 2000, exp = 606800\<rparr>"
    by (simp add: generateToken_def jwt_sign_def verifyToken_def jwt_verify_def broken_world_def
        demo_world_def Let_def)
  have "post_register demo_platform broken_world (anonymous\<lparr>body := bob_body\<rparr>) =
     (send 500 (message_json ''Failed to register user''),
      emit (ConsoleError ''Registration error:'' (Error ''connect ECONNREFUSED''))
        (emit (DbSelectUserByEmail ''bob@example.com'') broken_world))"
    using store_failure_is_answered_generically [where w = broken_world and P = demo_platform
        and req = "anonymous\<lparr>body := bob_body\<rparr>" and d = bob and m = "''connect ECONNREFUSED''"] e v
    by (simp add: bob_def)
  moreover have "isAuthenticated demo_platform broken_world (bearer ?t) =
     (Responded unauthorized,
      emit (ConsoleError ''Authentication error:'' (Error ''connect ECONNREFUSED''))
        (emit (DbSelectUserById 1) broken_world))"
    using store_failure_is_answered_generically [where w = broken_world and P = demo_platform
        and req = "bearer ?t" and tok = ?t and m = "''connect ECONNREFUSED''"
        and p = "\<lparr>claim_id = 1, iat = 2000, exp = 606800\<rparr>"] e c t
    by simp
  ultimately show ?thesis by blast
qed

text \<open>
  The claim as stated does not hold. With the connection to the store down, \<open>GET /user\<close>
  with a good token is answered 401, not 500; and \<open>POST /login\<close> is answered 401 with
  the store's own message, since the failure is an \<open>Error\<close> and the \<open>catch\<close> clause
  of the route answers every \<open>Error\<close> with its message before it reaches the 500.
\<close>

theorem store_failure_counterexample:
  "fst (get_user demo_platform broken_world (bearer (generateToken demo_platform broken_world 1)))
     = send 401 (message_json ''Unauthorized'')
   \<and> fst (post_login demo_platform broken_world
          (anonymous\<lparr>body := login_body ''alice@example.com'' ''password123''\<rparr>))
     = send 401 (message_json ''connect ECONNREFUSED'')"
proof -
  have "fst (get_user demo_platform broken_world (bearer (generateToken demo_platform broken_world 1)))
     = send 401 (message_json ''Unauthorized'')"
    by (simp add: get_user_def isAuthenticated_result bearer_def generateToken_def jwt_sign_def
        verifyToken_def jwt_verify_def broken_world_def demo_world_def unauthorized_def Let_def)
  moreover have "fst (post_login demo_platform broken_world
          (anonymous\<lparr>body := login_body ''alice@example.com'' ''password123''\<rparr>))
     = send 401 (message_json ''connect ECONNREFUSED'')"
    by (simp add: post_login_def demo_login_validates login_def getUserByEmail_fails
        broken_world_def)
  ultimately show ?thesis by blast
qed

section \<open>Login\<close>

lemma login_unknown_email:
  assumes "db_error w = None" and "find (\<lambda>u. email u = cred_email c) (users_rows w) = None"
  shows "login P w c =
           (Inl (Error ''Invalid email or password''),
            emit (ConsoleError ''Login error:'' (Error ''Invalid email or password''))
              (emit (DbSelectUserByEmail (cred_email c)) w))"
  using assms by (simp add: login_def getUserByEmail_ok)

lemma login_wrong_password:
  assumes "db_error w = None" and "find (\<lambda>u. email u = cred_email c) (users_rows w) = Some u"
    and "\<not> bcrypt_compare P (cred_password c) (password u)"
  shows "login P w c =
           (Inl (Error ''Invalid email or password''),
            emit (ConsoleError ''Login error:'' (Error ''Invalid email or password''))
              (emit BcryptCompare (emit (DbSelectUserByEmail (cred_email c)) w)))"
  using assms by (simp add: login_def getUserByEmail_ok comparePasswords_def)

lemma login_right_password:
  assumes "db_error w = None" and "find (\<lambda>u. email u = cred_email c) (users_rows w) = Some u"
    and "bcrypt_compare P (cred_password c) (password u)"
  shows "login P w c =
           (Inr (u, generateToken P w (user_id u)),
            emit BcryptCompare (emit (DbSelectUserByEmail (cred_email c)) w))"
  using assms by (simp add: login_def getUserByEmail_ok comparePasswords_def generateToken_def)

text \<open>
  C4, as the code has it. For credentials that validate (the store working): an unknown
  email and a wrong password for a known email are answered alike, 401 with the message
  \<open>Invalid email or password\<close> and no cookie. They do not take the same work: the
  password is compared, one bcrypt computation, only when the email is known. With the
  right password \<open>login\<close> returns the user and a token that \<open>verifyToken\<close> accepts and
  that decodes to the user's id, and the route answers 200 with the user and the token
  cookie.
\<close>

theorem login_outcomes:
  assumes "loginSchema P (body req) = Inr c" and "db_error w = None"
  shows "(find (\<lambda>u. email u = cred_email c) (users_rows w) = None \<longrightarrow>
            fst (login P w c) = Inl (Error ''Invalid email or password'')
            \<and> fst (post_login P w req) = send 401 (message_json ''Invalid email or password'')
            \<and> bcrypt_work (trace (snd (post_login P w req))) = bcrypt_work (trace w))
       \<and> (find (\<lambda>u. email u = cred_email c) (users_rows w) = Some u
            \<and> \<not> bcrypt_compare P (cred_password c) (password u) \<longrightarrow>
            fst (login P w c) = Inl (Error ''Invalid email or password'')
            \<and> fst (post_login P w req) = send 401 (message_json ''Invalid email or password'')
            \<and> bcrypt_work (trace (snd (post_login P w req))) = Suc (bcrypt_work (trace w)))
       \<and> (find (\<lambda>u. email u = cred_email c) (users_rows w) = Some u
            \<and> bcrypt_compare P (cred_password c) (password u) \<longrightarrow>
            (\<exists>tok w'. login P w c = (Inr (u, tok), w')
               \<and> (\<exists>p. verifyToken P w' tok = Some p \<and> claim_id p = user_id u)
               \<and> post_login P w req =
                   (\<lparr>res_status = 200, res_json = JObj [(''user'', user_json u)],
                     res_cookies = [token_cookie P tok]\<rparr>, w')))"
proof -
  have unknown: "fst (login P w c) = Inl (Error ''Invalid email or password'')
            \<and> fst (post_login P w req) = send 401 (message_json ''Invalid email or password'')
            \<and> bcrypt_work (trace (snd (post_login P w req))) = bcrypt_work (trace w)"
    if "find (\<lambda>u. email u = cred_email c) (users_rows w) = None"
    using assms login_unknown_email [OF assms(2) that, of P]
    by (simp add: post_login_def)
  have wrong: "fst (login P w c) = Inl (Error ''Invalid email or password'')
            \<and> fst (post_login P w req) = send 401 (message_json ''Invalid email or password'')
            \<and> bcrypt_work (trace (snd (post_login P w req))) = Suc (bcrypt_work (trace w))"
    if "find (\<lambda>u. email u = cred_email c) (users_rows w) = Some u"
      "\<not> bcrypt_compare P (cred_password c) (password u)"
    using assms login_wrong_password [OF assms(2) that]
    by (simp add: post_login_def)
  have right: "\<exists>tok w'. login P w c = (Inr (u, tok), w')
               \<and> (\<exists>p. verifyToken P w' tok = Some p \<and> claim_id p = user_id u)
               \<and> post_login P w req =
                   (\<lparr>res_status = 200, res_json = JObj [(''user'', user_json u)],
                     res_cookies = [token_cookie P tok]\<rparr>, w')"
    if "find (\<lambda>u. email u = cred_email c) (users_rows w) = Some u"
      "bcrypt_compare P (cred_password c) (password u)"
  proof -
    let ?w' = "emit BcryptCompare (emit (DbSelectUserByEmail (cred_email c)) w)"
    let ?tok = "generateToken P w (user_id u)"
    have l: "login P w c = (Inr (u, ?tok), ?w')"
      by (rule login_right_password [OF assms(2) that])
    moreover have "\<exists>p. verifyToken P ?w' ?tok = Some p \<and> claim_id p = user_id u"
      by (simp add: verifyToken_def generateToken_def jwt_verify_def jwt_sign_def Let_def)
    moreover have "post_login P w req =
                   (\<lparr>res_status = 200, res_json = JObj [(''user'', user_json u)],
                     res_cookies = [token_cookie P ?tok]\<rparr>, ?w')"
      using assms(1) l by (simp add: post_login_def)
    ultimately show ?thesis by blast
  qed
  from unknown wrong right show ?thesis by blast
qed

theorem login_outcomes_witness:
  "fst (post_login demo_platform demo_world
          (anonymous\<lparr>body := login_body ''nobody@example.com'' ''password123''\<rparr>))
     = send 401 (message_json ''Invalid email or password'')
   \<and> fst (post_login demo_platform demo_world
          (anonymous\<lparr>body := login_body ''alice@example.com'' ''wrongpassword''\<rparr>))
     = send 401 (message_json ''Invalid email or password'')
   \<and> (\<exists>tok w'. login demo_platform demo_world
                  \<lparr>cred_email = ''alice@example.com'', cred_password = ''password123''\<rparr>
                  = (Inr (alice, tok), w')
          \<and> (\<exists>p. verifyToken demo_platform w' tok = Some p \<and> claim_id p = user_id alice)
          \<and> post_login demo_platform demo_world
               (anonymous\<lparr>body := login_body ''alice@example.com'' ''password123''\<rparr>) =
               (\<lparr>res_status = 200, res_json = JObj [(''user'', user_json alice)],
                 res_cookies = [token_cookie demo_platform tok]\<rparr>, w'))"
proof -
  let ?nobody = "\<lparr>cred_email = ''nobody@example.com'', cred_password = ''password123''\<rparr>"
  let ?wrong = "\<lparr>cred_email = ''alice@example.com'', cred_password = ''wrongpassword''\<rparr>"
  let ?right = "\<lparr>cred_email = ''alice@example.com'', cred_password = ''password123''\<rparr>"
  have ok: "db_error demo_world = None"
    by (simp add: demo_world_def)
  have v1: "loginSchema demo_platform
      (body (anonymous\<lparr>body := login_body ''nobody@example.com'' ''password123''\<rparr>)) = Inr ?nobody"
    and v2: "loginSchema demo_platform
      (body (anonymous\<lparr>body := login_body ''alice@example.com'' ''wrongpassword''\<rparr>)) = Inr ?wrong"
    and v3: "loginSchema demo_platform
      (body (anonymous\<lparr>body := login_body ''alice@example.com'' ''password123''\<rparr>)) = Inr ?right"
    by (simp_all add: demo_login_validates)
  have f1: "find (\<lambda>u. email u = cred_email ?nobody) (users_rows demo_world) = None"
    and f2: "find (\<lambda>u. email u = cred_email ?wrong) (users_rows demo_world) = Some alice"
    and f3: "find (\<lambda>u. email u = cred_email ?right) (users_rows demo_world) = Some alice"
    and c2: "\<not> bcrypt_compare demo_platform (cred_password ?wrong) (password alice)"
    and c3: "bcrypt_compare demo_platform (cred_password ?right) (password alice)"
    by (simp_all add: demo_world_def alice_def carol_def demo_platform_def)
  show ?thesis
    using login_outcomes [OF v1 ok, of alice] login_outcomes [OF v2 ok, of alice]
      login_outcomes [OF v3 ok, of alice] f1 f2 f3 c2 c3
    by simp
qed

text \<open>
  There is no parity of timing between the two failures: on the sample store both are
  answered with the same response, the unknown email after no bcrypt computation and
  the wrong password after one.
\<close>

theorem login_failures_differ_in_work_counterexample:
  "fst (post_login demo_platform demo_world
          (anonymous\<lparr>body := login_body ''nobody@example.com'' ''password123''\<rparr>))
     = fst (post_login demo_platform demo_world
          (anonymous\<lparr>body := login_body ''alice@example.com'' ''wrongpassword''\<rparr>))
   \<and> bcrypt_work (trace (snd (post_login demo_platform demo_world
          (anonymous\<lparr>body := login_body ''nobody@example.com'' ''password123''\<rparr>)))) = 0
   \<and> bcrypt_work (trace (snd (post_login demo_platform demo_world
          (anonymous\<lparr>body := login_body ''alice@example.com'' ''wrongpassword''\<rparr>)))) = 1"
proof -
  have unknown: "post_login demo_platform demo_world
          (anonymous\<lparr>body := login_body ''nobody@example.com'' ''password123''\<rparr>) =
      (send 401 (message_json ''Invalid email or password''),
       emit (ConsoleError ''Login error:'' (Error ''Invalid email or password''))
         (emit (DbSelectUserByEmail ''nobody@example.com'') demo_world))"
    by (simp add: post_login_def demo_login_validates login_def getUserByEmail_ok
        alice_def carol_def)
  have wrong: "post_login demo_platform demo_world
          (anonymous\<lparr>body := login_body ''alice@example.com'' ''wrongpassword''\<rparr>) =
      (send 401 (message_json ''Invalid email or password''),
       emit (ConsoleError ''Login error:'' (Error ''Invalid email or password''))
         (emit BcryptCompare (emit (DbSelectUserByEmail ''alice@example.com'') demo_world)))"
    by (simp add: post_login_def demo_login_validates login_def getUserByEmail_ok
        comparePasswords_def alice_def carol_def)
  show ?thesis
    by (simp add: unknown wrong)
qed

section \<open>Validation of a registration\<close>

lemma registerUserSchema_strings:
  assumes "member kvs ''fullName'' = Some (JStr fn)"
    and "member kvs ''email'' = Some (JStr em)"
    and "member kvs ''phone'' = Some (JStr ph)"
    and "member kvs ''password'' = Some (JStr pw)"
    and "member kvs ''confirmPassword'' = Some (JStr cp)"
  shows "registerUserSchema P (JObj kvs) =
           (if string_issues P em ph pw cp = []
            then Inr \<lparr>reg_fullName = fn, reg_email = em, reg_phone = ph, reg_password = pw,
                      reg_confirmPassword = cp\<rparr>
            else Inl (ZodError (string_issues P em ph pw cp)))"
  using assms
  by (simp add: registerUserSchema_def zod_object_def zod_string_def no_checks_def Let_def string_issues_def
      passwords_match_def)

lemma string_issues_paths:
  "map issue_path (string_issues P em ph pw cp) = map (\<lambda>f. [f]) (violated_fields P em ph pw cp)"
  by (simp add: string_issues_def violated_fields_def email_check_def regex_check_def
      phone_regex_def min_check_def passwords_match_def)

text \<open>
  C8, as the code has it. When the five members of a registration payload are all
  present as strings and the payload violates one or more of the rules (email format,
  a phone of exactly 10 digits, the minimum length of the password, the equality of
  password and confirmation), \<open>POST /register\<close> answers 400 \<open>Validation error\<close> with
  one issue for every violated field, in the order of the fields, and leaves the world
  as it was.
\<close>

theorem validation_lists_every_violated_field:
  assumes "body req = JObj kvs"
    and "member kvs ''fullName'' = Some (JStr fn)"
    and "member kvs ''email'' = Some (JStr em)"
    and "member kvs ''phone'' = Some (JStr ph)"
    and "member kvs ''password'' = Some (JStr pw)"
    and "member kvs ''confirmPassword'' = Some (JStr cp)"
    and "violated_fields P em ph pw cp \<noteq> []"
  shows "\<exists>is. post_register P w req =
                (send 400 (JObj [(''message'', JStr ''Validation error''),
                                 (''errors'', JArr (map issue_json is))]), w)
            \<and> map issue_path is = map (\<lambda>f. [f]) (violated_fields P em ph pw cp)"
proof -
  let ?is = "string_issues P em ph pw cp"
  have paths: "map issue_path ?is = map (\<lambda>f. [f]) (violated_fields P em ph pw cp)"
    by (rule string_issues_paths)
  with assms(7) have "?is \<noteq> []"
    by auto
  then have "registerUserSchema P (body req) = Inl (ZodError ?is)"
    using assms(1) registerUserSchema_strings [OF assms(2-6), of P] by simp
  then have "post_register P w req =
                (send 400 (JObj [(''message'', JStr ''Validation error''),
                                 (''errors'', JArr (map issue_json ?is))]), w)"
    by (simp add: post_register_def validation_error_def)
  with paths show ?thesis by blast
qed

theorem validation_lists_every_violated_field_witness:
  "\<exists>is. post_register demo_platform demo_world
           (anonymous\<lparr>body := registration_body ''Dan'' ''bad'' ''123'' ''short'' ''other''\<rparr>) =
           (send 400 (JObj [(''message'', JStr ''Validation error''),
                            (''errors'', JArr (map issue_json is))]), demo_world)
       \<and> map issue_path is = [[''email''], [''phone''], [''password''], [''confirmPassword'']]"
proof -
  let ?kvs = "[(''fullName'', JStr ''Dan''), (''email'', JStr ''bad''), (''phone'', JStr ''123''),
           (''password'', JStr ''short''), (''confirmPassword'', JStr ''other'')]"
  have b: "body (anonymous\<lparr>body := registration_body ''Dan'' ''bad'' ''123'' ''short'' ''other''\<rparr>) = JObj ?kvs"
    by (simp add: registration_body_def)
  have m: "member ?kvs ''fullName'' = Some (JStr ''Dan'')"
    "member ?kvs ''email'' = Some (JStr ''bad'')"
    "member ?kvs ''phone'' = Some (JStr ''123'')"
    "member ?kvs ''password'' = Some (JStr ''short'')"
    "member ?kvs ''confirmPassword'' = Some (JStr ''other'')"
    by (simp_all add: member_def)
  have v: "violated_fields demo_platform ''bad'' ''123'' ''short'' ''other'' =
      [''email'', ''phone'', ''password'', ''confirmPassword'']"
    by (simp add: violated_fields_def demo_platform_def)
  then have ne: "violated_fields demo_platform ''bad'' ''123'' ''short'' ''other'' \<noteq> []"
    by simp
  show ?thesis
    using validation_lists_every_violated_field [OF b m ne, of demo_world] v
    by simp
qed

text \<open>
  Without the condition on the members the claim does not hold. The payload below
  violates all four rules and lacks \<open>fullName\<close>; the object schema aborts on the
  missing member, the refinement does not run, and the error names \<open>fullName\<close>,
  \<open>email\<close>, \<open>phone\<close> and \<open>password\<close> but not \<open>confirmPassword\<close>.
\<close>

theorem missing_member_hides_mismatch_counterexample:
  "fst (post_register demo_platform demo_world
          (anonymous\<lparr>body := JObj [(''email'', JStr ''bad''), (''phone'', JStr ''123''),
             (''password'', JStr ''short''), (''confirmPassword'', JStr ''other'')]\<rparr>)) =
     send 400
       (JObj [(''message'', JStr ''Validation error''),
              (''errors'', JArr (map issue_json
                 [\<lparr>issue_code = ''invalid_type'', issue_path = [''fullName''],
                   issue_message = ''Required''\<rparr>,
                  \<lparr>issue_code = ''invalid_string'', issue_path = [''email''],
                   issue_message = ''Please enter a valid email address''\<rparr>,
                  \<lparr>issue_code = ''invalid_string'', issue_path = [''phone''],
                   issue_message = ''Phone number must be 10 digits''\<rparr>,
                  \<lparr>issue_code = ''too_small'', issue_path = [''password''],
                   issue_message = ''Password must be at least 8 characters''\<rparr>]))])
   \<and> violated_fields demo_platform ''bad'' ''123'' ''short'' ''other'' =
       [''email'', ''phone'', ''password'', ''confirmPassword'']"
  by (simp add: post_register_def registerUserSchema_def zod_object_def zod_string_def member_def no_checks_def
      email_check_def regex_check_def phone_regex_def min_check_def
      validation_error_def violated_fields_def demo_platform_def anonymous_def Let_def)

section \<open>The order of the two checks\<close>

text \<open>
  C9. Every route of the application that names \<open>isAdmin\<close> names \<open>isAuthenticated\<close>
  first and \<open>isAdmin\<close> right after it. On such a route \<open>isAuthenticated\<close> runs first;
  when it responds, that is the response and \<open>isAdmin\<close> does not run; otherwise
  \<open>isAdmin\<close> runs on the request \<open>isAuthenticated\<close> passed on. \<open>isAdmin\<close> itself leaves
  the world as it is (no lookup in the store, nothing logged), either passes the
  request on unchanged or responds 403, and which of the two depends on the attached
  user alone, not on the cookies: it takes neither the platform nor the world, so it
  has no secret to verify a token with and no store to resolve a user from.
\<close>

theorem admin_routes_authenticate_first:
  "(\<forall>r \<in> set registerRoutes. IsAdmin \<in> set (route_middleware r) \<longrightarrow>
       (\<exists>rest. route_middleware r = IsAuthenticated # IsAdmin # rest))
   \<and> dispatch P upload (IsAuthenticated # IsAdmin # rest) handler w req =
       (case isAuthenticated P w req of
          (Responded res, w') \<Rightarrow> (res, w')
        | (Next req', w') \<Rightarrow>
            (case isAdmin req' of
               Responded res \<Rightarrow> (res, w')
             | Next req'' \<Rightarrow> dispatch P upload rest handler w' req''))
   \<and> middleware_fn P upload IsAdmin w req = (isAdmin req, w)
   \<and> (isAdmin req = Next req \<or> isAdmin req = Responded forbidden)
   \<and> (user req1 = user req2 \<longrightarrow>
        (isAdmin req1 = Next req1) = (isAdmin req2 = Next req2))"
proof -
  have table: "\<forall>r \<in> set registerRoutes. IsAdmin \<in> set (route_middleware r) \<longrightarrow>
       (\<exists>rest. route_middleware r = IsAuthenticated # IsAdmin # rest)"
    by (simp add: registerRoutes_def authRoutes_def)
  have chain: "dispatch P upload (IsAuthenticated # IsAdmin # rest) handler w req =
       (case isAuthenticated P w req of
          (Responded res, w') \<Rightarrow> (res, w')
        | (Next req', w') \<Rightarrow>
            (case isAdmin req' of
               Responded res \<Rightarrow> (res, w')
             | Next req'' \<Rightarrow> dispatch P upload rest handler w' req''))"
    by (simp add: dispatch_def split: prod.splits outcome.splits)
  have pure: "middleware_fn P upload IsAdmin w req = (isAdmin req, w)"
    by simp
  have only: "isAdmin req = Next req \<or> isAdmin req = Responded forbidden"
    by (simp add: isAdmin_cases)
  have same: "user req1 = user req2 \<longrightarrow> (isAdmin req1 = Next req1) = (isAdmin req2 = Next req2)"
    by (auto simp: isAdmin_cases)
  from table chain pure only same show ?thesis by blast
qed

theorem admin_routes_authenticate_first_witness:
  "IsAdmin \<in> set (route_middleware (registerRoutes ! 4))
   \<and> (\<exists>rest. route_middleware (registerRoutes ! 4) = IsAuthenticated # IsAdmin # rest)
   \<and> route_path (registerRoutes ! 4) = ''/api/auth/admin''
   \<and> fst (dispatch demo_platform no_upload [IsAuthenticated, IsAdmin] get_admin_handler
            demo_world anonymous) = unauthorized
   \<and> (isAdmin (bearer (NotJws ''x'')) = Next (bearer (NotJws ''x''))) = (isAdmin anonymous = Next anonymous)"
proof -
  have r: "registerRoutes ! 4 \<in> set registerRoutes"
    by (simp add: registerRoutes_def authRoutes_def)
  have m: "route_middleware (registerRoutes ! 4) = [IsAuthenticated, IsAdmin]"
    and p: "route_path (registerRoutes ! 4) = ''/api/auth/admin''"
    by (simp_all add: registerRoutes_def authRoutes_def)
  have a: "isAuthenticated demo_platform demo_world anonymous = (Responded unauthorized, demo_world)"
    by (simp add: isAuthenticated_result anonymous_def)
  have u: "user (bearer (NotJws ''x'')) = user anonymous"
    by (simp add: bearer_def anonymous_def)
  note t = admin_routes_authenticate_first [where P = demo_platform and upload = no_upload
      and rest = "[]" and handler = get_admin_handler and w = demo_world and req = anonymous
      and ?req1.0 = "bearer (NotJws ''x'')" and ?req2.0 = anonymous]
  from t r m have "\<exists>rest. route_middleware (registerRoutes ! 4) = IsAuthenticated # IsAdmin # rest"
    by simp
  moreover from t a have "fst (dispatch demo_platform no_upload [IsAuthenticated, IsAdmin]
      get_admin_handler demo_world anonymous) = unauthorized"
    by simp
  moreover from t u have "(isAdmin (bearer (NotJws ''x'')) = Next (bearer (NotJws ''x'')))
      = (isAdmin anonymous = Next anonymous)"
    by blast
  ultimately show ?thesis
    using m p by simp
qed

section \<open>Logout\<close>

text \<open>
  C10. \<open>POST /logout\<close> has no middleware; for every request, with or without a token
  cookie, it answers 200 with the message \<open>Logged out successfully\<close> and clears the
  token cookie, so that the client's cookie store is left without it. A second logout
  gives the same response, and the cookie store after the two is the cookie store
  after the first. A request to \<open>GET /user\<close> with the cookies as they are after the
  logout is answered 401.
\<close>

theorem logout_clears_cookie:
  "post_logout w req =
     (\<lparr>res_status = 200, res_json = JObj [(''message'', JStr ''Logged out successfully'')],
       res_cookies = [ClearCookie ''token'']\<rparr>, w)
   \<and> \<lparr>route_method = POST, route_path = ''/logout'', route_middleware = []\<rparr> \<in> set authRoutes
   \<and> jar_after (fst (post_logout w req)) jar = jar(''token'' := None)
   \<and> fst (post_logout w' req') = fst (post_logout w req)
   \<and> jar_after (fst (post_logout w' req')) (jar_after (fst (post_logout w req)) jar)
       = jar_after (fst (post_logout w req)) jar
   \<and> fst (get_user P w (req\<lparr>cookies := jar_after (fst (post_logout w req)) (cookies req)\<rparr>))
       = unauthorized"
  by (simp add: post_logout_def message_json_def jar_after_def get_user_def
      isAuthenticated_result authRoutes_def)

theorem logout_clears_cookie_witness:
  "fst (post_logout demo_world (bearer (generateToken demo_platform demo_world 2))) =
     \<lparr>res_status = 200, res_json = JObj [(''message'', JStr ''Logged out successfully'')],
       res_cookies = [ClearCookie ''token'']\<rparr>
   \<and> jar_after (fst (post_logout demo_world (bearer (generateToken demo_platform demo_world 2))))
        [''token'' \<mapsto> generateToken demo_platform demo_world 2] ''token'' = None
   \<and> fst (get_user demo_platform demo_world
        ((bearer (generateToken demo_platform demo_world 2))
           \<lparr>cookies := jar_after
              (fst (post_logout demo_world (bearer (generateToken demo_platform demo_world 2))))
              (cookies (bearer (generateToken demo_platform demo_world 2)))\<rparr>)) = unauthorized"
proof -
  let ?r = "bearer (generateToken demo_platform demo_world 2)"
  let ?jar = "[''token'' \<mapsto> generateToken demo_platform demo_world 2]"
  note t = logout_clears_cookie [where w = demo_world and P = demo_platform and req = ?r
      and jar = ?jar and w' = demo_world and req' = anonymous]
  from t have "fst (post_logout demo_world ?r) =
     \<lparr>res_status = 200, res_json = JObj [(''message'', JStr ''Logged out successfully'')],
       res_cookies = [ClearCookie ''token'']\<rparr>"
    by simp
  moreover from t have "jar_after (fst (post_logout demo_world ?r)) ?jar = ?jar(''token'' := None)"
    by blast
  then have "jar_after (fst (post_logout demo_world ?r)) ?jar ''token'' = None"
    by simp
  moreover from t have "fst (get_user demo_platform demo_world
        (?r\<lparr>cookies := jar_after (fst (post_logout demo_world ?r)) (cookies ?r)\<rparr>)) = unauthorized"
    by blast
  ultimately show ?thesis by blast
qed

end
